theory Spec2Isabelle
  imports Main
begin

section \<open>Data model\<close>

text \<open>
  The registry and the communicators of \<^verbatim>\<open>pus_lab_1\<close>. Python objects become
  records, dictionaries become maps, and every exception that the handlers and the
  library calls in them can raise is a value of \<open>error\<close>. An exception does not undo
  the assignments made before it, so a method that changes an object returns the object
  as the exception left it, together with either the error or the result.
\<close>

datatype error =
  AttributeError | IndexError | KeyError | TypeError | ValueError | UnicodeEncodeError
  | OSError | EOFError

type_synonym bytes = string

type_synonym address = "string \<times> nat"

text \<open>
  A Python \<^verbatim>\<open>str\<close> is a \<open>string\<close>; a character with the top bit set stands for a
  character outside ASCII. \<^verbatim>\<open>s.encode("ascii")\<close> gives the same characters as bytes
  when all of them are ASCII and raises \<^verbatim>\<open>UnicodeEncodeError\<close> otherwise.
\<close>

definition is_ascii :: "string \<Rightarrow> bool" where
  "is_ascii s = list_all (\<lambda>c. \<not> digit7 c) s"

definition encode_ascii :: "string \<Rightarrow> error + bytes" where
  "encode_ascii s = (if is_ascii s then Inr s else Inl UnicodeEncodeError)"

text \<open>
  The cryptographic library is outside the repository and a parameter of the model.
  \<open>'K\<close> is the type of the key objects that \<^verbatim>\<open>RSA.generate\<close> returns; they hold a
  private key, so they can sign. \<open>'k\<close> is the type of the key objects that
  \<^verbatim>\<open>RSA.importKey\<close> returns for the bytes of a certificate; importing raises
  \<^verbatim>\<open>ValueError\<close> on bytes that are no key, which is \<open>None\<close> here. \<open>'s\<close> is the
  type of the values \<^verbatim>\<open>key.sign\<close> returns. \<^verbatim>\<open>key.verify\<close> takes such a value:
  a signature attribute that is still \<^verbatim>\<open>None\<close> makes it raise \<^verbatim>\<open>TypeError\<close>, which
  is written out in \<open>Certificate_verify\<close> and \<open>FileRequest_verify\<close>.
\<close>

record ('K, 'k, 's) lib =
  sha256 :: "bytes \<Rightarrow> bytes"
  rsa_sign :: "'K \<Rightarrow> bytes \<Rightarrow> 's"
  rsa_verify :: "'k \<Rightarrow> bytes \<Rightarrow> 's \<Rightarrow> bool"
  import_key :: "bytes \<Rightarrow> 'k option"
  export_public_key :: "'K \<Rightarrow> bytes"

text \<open>
  A hash object is the byte string fed to it so far: \<^verbatim>\<open>SHA256.new(d)\<close> starts it,
  \<^verbatim>\<open>update(d)\<close> appends, \<^verbatim>\<open>digest()\<close> hashes what was collected.
\<close>

definition sha256_new :: "bytes \<Rightarrow> bytes" where
  "sha256_new d = d"

definition sha256_update :: "bytes \<Rightarrow> bytes \<Rightarrow> bytes" where
  "sha256_update sha d = sha @ d"

definition sha256_digest :: "('K, 'k, 's) lib \<Rightarrow> bytes \<Rightarrow> bytes" where
  "sha256_digest L sha = sha256 L sha"

record 's certificate =
  cert_name :: string
  cert_address :: address
  cert_public_key :: bytes
  cert_signature :: "'s option"
  cert_com_id :: int

record file_descriptor =
  fd_name :: string
  fd_author :: string
  fd_description :: string
  fd_file_id :: int
  fd_com_id :: int

record file_buffer =
  buffer_id :: int
  descriptor :: file_descriptor
  lines :: "string list"

record sp_descriptor =
  sp_com_id :: int
  sp_name :: string
  sp_address :: address

text \<open>
  The attribute \<^verbatim>\<open>content\<close> of a message holds whatever was pickled into it: nothing,
  a certificate, a list of file descriptors, one of the registry's two directories, or
  a file buffer. A list of file descriptors is given by the descriptor at each of its
  positions, every position holding an object of its own, as in the lists that
  \<^verbatim>\<open>FileDescriptor.load\<close> builds; a list that holds one object at two positions is
  not among these values.
\<close>

datatype 's content =
  NoneC
  | CertC "'s certificate"
  | FilesC "file_descriptor list"
  | SPDirC "int \<rightharpoonup> sp_descriptor"
  | FileDirC "int \<rightharpoonup> file_descriptor"
  | BufferC file_buffer

record 's message =
  msg_type :: string
  content :: "'s content"
  request :: bool

text \<open>\<^verbatim>\<open>FileRequest\<close> is a subclass of \<^verbatim>\<open>Message\<close>: the record extends it.\<close>

record 's file_request = "'s message" +
  username :: string
  src_com_id :: int
  signature :: "'s option"

definition CERTIFICATE :: string where
  "CERTIFICATE = ''CERTIFICATE''"

definition SIGN :: string where
  "SIGN = ''SIGN''"

definition PUBLISH :: string where
  "PUBLISH = ''PUBLISH''"

definition FETCH_SP :: string where
  "FETCH_SP = ''FETCH_SP''"

definition FETCH_FILE :: string where
  "FETCH_FILE = ''FETCH_FILE''"

definition TYPES :: "string list" where
  "TYPES = [CERTIFICATE, SIGN, PUBLISH, FETCH_SP, FETCH_FILE]"

definition Message_init :: "string \<Rightarrow> 's content \<Rightarrow> error + 's message" where
  "Message_init mt c =
     (if mt \<notin> set TYPES then Inl ValueError
      else Inr \<lparr>msg_type = mt, content = c, request = True\<rparr>)"

subsection \<open>Certificates\<close>

definition Certificate_init :: "string \<Rightarrow> address \<Rightarrow> bytes \<Rightarrow> 's certificate" where
  "Certificate_init nm addr pk =
     \<lparr>cert_name = nm, cert_address = addr, cert_public_key = pk,
      cert_signature = None, cert_com_id = 0\<rparr>"

text \<open>\<^verbatim>\<open>Certificate.hash\<close>: encoding the name can raise.\<close>

definition Certificate_hash :: "('K, 'k, 's) lib \<Rightarrow> 's certificate \<Rightarrow> error + bytes" where
  "Certificate_hash L c =
     (case encode_ascii (cert_name c) of
        Inl e \<Rightarrow> Inl e
      | Inr name_bytes \<Rightarrow>
          (let sha = sha256_new name_bytes;
               sha = sha256_update sha (cert_public_key c)
           in Inr (sha256_digest L sha)))"

text \<open>
  \<^verbatim>\<open>Certificate.sign\<close>: the hash is computed first; when it raises, the signature
  attribute is not assigned.
\<close>

definition Certificate_sign ::
  "('K, 'k, 's) lib \<Rightarrow> 's certificate \<Rightarrow> 'K \<Rightarrow> error + 's certificate" where
  "Certificate_sign L c k =
     (case Certificate_hash L c of
        Inl e \<Rightarrow> Inl e
      | Inr h \<Rightarrow> Inr (c\<lparr>cert_signature := Some (rsa_sign L k h)\<rparr>))"

text \<open>
  \<^verbatim>\<open>Certificate.verify\<close>: in \<^verbatim>\<open>key.verify(self.hash(), self.signature)\<close> the hash is
  evaluated before the call, and the call raises on a signature that is \<^verbatim>\<open>None\<close>.
\<close>

definition Certificate_verify ::
  "('K, 'k, 's) lib \<Rightarrow> 's certificate \<Rightarrow> 'k \<Rightarrow> error + bool" where
  "Certificate_verify L c k =
     (case Certificate_hash L c of
        Inl e \<Rightarrow> Inl e
      | Inr h \<Rightarrow>
          (case cert_signature c of
             None \<Rightarrow> Inl TypeError
           | Some s \<Rightarrow> Inr (rsa_verify L k h s)))"

section \<open>The central registry\<close>

record ('K, 's) registry =
  reg_name :: string
  reg_address :: address
  reg_key :: 'K
  reg_certificate :: "'s certificate"
  com_id_counter :: int
  service_providers :: "int \<rightharpoonup> sp_descriptor"
  file_id_counter :: int
  public_files :: "int \<rightharpoonup> file_descriptor"

text \<open>
  \<^verbatim>\<open>CentralRegistry.__init__\<close>; the key that \<^verbatim>\<open>get_rsa_key()\<close> generates is the
  argument \<open>k\<close>.
\<close>

definition CentralRegistry_init ::
  "('K, 'k, 's) lib \<Rightarrow> string \<Rightarrow> address \<Rightarrow> 'K \<Rightarrow> ('K, 's) registry" where
  "CentralRegistry_init L nm addr k =
     \<lparr>reg_name = nm, reg_address = addr, reg_key = k,
      reg_certificate = Certificate_init nm addr (export_public_key L k),
      com_id_counter = 1, service_providers = Map.empty,
      file_id_counter = 1, public_files = Map.empty\<rparr>"

text \<open>
  \<^verbatim>\<open>CentralRegistry.register_certificate\<close>. The identifier is assigned and the counter
  incremented before \<^verbatim>\<open>certificate.sign\<close> is called; when that raises, the counter
  stays incremented and neither the descriptor nor the directory entry is made.
\<close>

definition CentralRegistry_register_certificate ::
  "('K, 'k, 's) lib \<Rightarrow> ('K, 's) registry \<Rightarrow> 's certificate
     \<Rightarrow> (error + 's certificate) \<times> ('K, 's) registry" where
  "CentralRegistry_register_certificate L srv c =
     (let c = c\<lparr>cert_com_id := com_id_counter srv\<rparr>;
          srv = srv\<lparr>com_id_counter := com_id_counter srv + 1\<rparr>
      in case Certificate_sign L c (reg_key srv) of
           Inl e \<Rightarrow> (Inl e, srv)
         | Inr c \<Rightarrow>
             (let d = \<lparr>sp_com_id = cert_com_id c, sp_name = cert_name c,
                       sp_address = cert_address c\<rparr>
              in (Inr c, srv\<lparr>service_providers := (service_providers srv)(sp_com_id d \<mapsto> d)\<rparr>)))"

text \<open>\<^verbatim>\<open>CentralRegistry.publish\<close>: the loop over the list, the counter threaded through.\<close>

fun CentralRegistry_publish ::
  "('K, 's) registry \<Rightarrow> file_descriptor list \<Rightarrow> file_descriptor list \<times> ('K, 's) registry" where
  "CentralRegistry_publish srv [] = ([], srv)"
| "CentralRegistry_publish srv (f # files) =
     (let f = f\<lparr>fd_file_id := file_id_counter srv\<rparr>;
          srv = srv\<lparr>file_id_counter := file_id_counter srv + 1\<rparr>;
          srv = srv\<lparr>public_files := (public_files srv)(fd_file_id f \<mapsto> f)\<rparr>;
          (files', srv') = CentralRegistry_publish srv files
      in (f # files', srv'))"

text \<open>
  \<^verbatim>\<open>RequestHandler.handle\<close>. The log line of the \<^verbatim>\<open>PUBLISH\<close> branch evaluates
  \<^verbatim>\<open>len(files)\<close> and \<^verbatim>\<open>files[0].com_id\<close> before \<^verbatim>\<open>publish\<close> is called, and the one
  of the \<^verbatim>\<open>SIGN\<close> branch reads \<^verbatim>\<open>certificate.name\<close>; these are the places where a
  payload of the wrong shape raises. A handler that raises sends no reply. The handler
  reads and writes only the attributes of \<^verbatim>\<open>Message\<close>, so it takes any extension of the
  record.
\<close>

definition RequestHandler_handle ::
  "('K, 'k, 's) lib \<Rightarrow> ('K, 's) registry \<Rightarrow> ('s, 'z) message_scheme
     \<Rightarrow> (error + ('s, 'z) message_scheme) \<times> ('K, 's) registry" where
  "RequestHandler_handle L srv received =
     (let message = received\<lparr>request := False\<rparr> in
      if msg_type message = CERTIFICATE then
        (Inr (message\<lparr>content := CertC (reg_certificate srv)\<rparr>), srv)
      else if msg_type message = SIGN then
        (case content message of
           CertC c \<Rightarrow>
             (case CentralRegistry_register_certificate L srv c of
                (Inl e, srv') \<Rightarrow> (Inl e, srv')
              | (Inr c', srv') \<Rightarrow> (Inr (message\<lparr>content := CertC c'\<rparr>), srv'))
         | _ \<Rightarrow> (Inl AttributeError, srv))
      else if msg_type message = PUBLISH then
        (case content message of
           FilesC files \<Rightarrow>
             (if files = [] then (Inl IndexError, srv)
              else (let (files', srv') = CentralRegistry_publish srv files
                    in (Inr (message\<lparr>content := FilesC files'\<rparr>), srv')))
         | SPDirC d \<Rightarrow> (if d 0 = None then (Inl KeyError, srv) else (Inl AttributeError, srv))
         | FileDirC d \<Rightarrow> (if d 0 = None then (Inl KeyError, srv) else (Inl AttributeError, srv))
         | _ \<Rightarrow> (Inl TypeError, srv))
      else if msg_type message = FETCH_SP then
        (Inr (message\<lparr>content := SPDirC (service_providers srv)\<rparr>), srv)
      else if msg_type message = FETCH_FILE then
        (Inr (message\<lparr>content := FileDirC (public_files srv)\<rparr>), srv)
      else (Inr (message\<lparr>request := True\<rparr>), srv))"


text \<open>
  The requests that move the communicator counter: those of type \<^verbatim>\<open>SIGN\<close> whose
  content is a certificate.
\<close>

definition carries_certificate :: "('s, 'z) message_scheme \<Rightarrow> bool" where
  "carries_certificate m =
     (msg_type m = SIGN \<and> (case content m of CertC c \<Rightarrow> True | _ \<Rightarrow> False))"

section \<open>File requests\<close>

text \<open>
  \<^verbatim>\<open>"%d" % n\<close> for a Python \<^verbatim>\<open>int\<close>: the decimal digits, with a minus sign for a
  negative number.
\<close>

function str_nat :: "nat \<Rightarrow> string" where
  "str_nat n =
     (if n < 10 then [''0123456789'' ! n]
      else str_nat (n div 10) @ [''0123456789'' ! (n mod 10)])"
  by pat_completeness auto
termination
  by (relation "measure (\<lambda>n. n)") auto

declare str_nat.simps [simp del]

definition fmt_d :: "int \<Rightarrow> string" where
  "fmt_d i = (if i < 0 then CHR ''-'' # str_nat (nat (- i)) else str_nat (nat i))"

text \<open>\<^verbatim>\<open>"%d %d %d %d" % (a, b, c, d)\<close>\<close>

definition fmt_4d :: "int \<Rightarrow> int \<Rightarrow> int \<Rightarrow> int \<Rightarrow> string" where
  "fmt_4d a b c d = fmt_d a @ '' '' @ fmt_d b @ '' '' @ fmt_d c @ '' '' @ fmt_d d"

text \<open>
  \<^verbatim>\<open>FileRequest.__init__\<close> sets its own attributes and calls \<^verbatim>\<open>Message.__init__\<close>
  with the type \<^verbatim>\<open>FETCH_FILE\<close> and the buffer as content.
\<close>

definition FileRequest_init :: "file_buffer \<Rightarrow> int \<Rightarrow> string \<Rightarrow> error + 's file_request" where
  "FileRequest_init buffer src user =
     (case Message_init FETCH_FILE (BufferC buffer) of
        Inl e \<Rightarrow> Inl e
      | Inr m \<Rightarrow>
          Inr \<lparr>msg_type = msg_type m, content = content m, request = request m,
               username = user, src_com_id = src, signature = None\<rparr>)"

text \<open>
  The loop \<^verbatim>\<open>for line in self.content.lines: sha.update(line.encode("ascii"))\<close>; it
  stops at the first line that does not encode.
\<close>

fun update_lines :: "bytes \<Rightarrow> string list \<Rightarrow> error + bytes" where
  "update_lines sha [] = Inr sha"
| "update_lines sha (line # rest) =
     (case encode_ascii line of
        Inl e \<Rightarrow> Inl e
      | Inr line_bytes \<Rightarrow> update_lines (sha256_update sha line_bytes) rest)"

text \<open>
  \<^verbatim>\<open>FileRequest.hash\<close>, statement by statement: the user name is encoded, then the
  type; then \<^verbatim>\<open>self.content.lines\<close> is read, which a content that is not a file
  buffer does not have; then the lines are encoded, then the string of the four
  numbers.
\<close>

definition FileRequest_hash ::
  "('K, 'k, 's) lib \<Rightarrow> ('s, 'z) file_request_scheme \<Rightarrow> error + bytes" where
  "FileRequest_hash L r =
     (case encode_ascii (username r) of
        Inl e \<Rightarrow> Inl e
      | Inr user_bytes \<Rightarrow>
          (case encode_ascii (msg_type r) of
             Inl e \<Rightarrow> Inl e
           | Inr type_bytes \<Rightarrow>
               (let sha = sha256_new user_bytes;
                    sha = sha256_update sha type_bytes
                in case content r of
                     BufferC b \<Rightarrow>
                       (case (if lines b \<noteq> [] then update_lines sha (lines b) else Inr sha) of
                          Inl e \<Rightarrow> Inl e
                        | Inr sha \<Rightarrow>
                            (let d = descriptor b;
                                 hash_string = fmt_4d (fd_com_id d) (src_com_id r)
                                    (fd_com_id d) (fd_file_id d)
                             in case encode_ascii hash_string of
                                  Inl e \<Rightarrow> Inl e
                                | Inr id_bytes \<Rightarrow>
                                    Inr (sha256_digest L (sha256_update sha id_bytes))))
                   | _ \<Rightarrow> Inl AttributeError)))"

definition FileRequest_sign ::
  "('K, 'k, 's) lib \<Rightarrow> ('s, 'z) file_request_scheme \<Rightarrow> 'K
     \<Rightarrow> error + ('s, 'z) file_request_scheme" where
  "FileRequest_sign L r k =
     (case FileRequest_hash L r of
        Inl e \<Rightarrow> Inl e
      | Inr h \<Rightarrow> Inr (r\<lparr>signature := Some (rsa_sign L k h)\<rparr>))"

text \<open>
  \<^verbatim>\<open>FileRequest.verify\<close>: as for a certificate, the hash first, then the call, which
  raises on a signature that is \<^verbatim>\<open>None\<close>.
\<close>

definition FileRequest_verify ::
  "('K, 'k, 's) lib \<Rightarrow> ('s, 'z) file_request_scheme \<Rightarrow> 'k \<Rightarrow> error + bool" where
  "FileRequest_verify L r k =
     (case FileRequest_hash L r of
        Inl e \<Rightarrow> Inl e
      | Inr h \<Rightarrow>
          (case signature r of
             None \<Rightarrow> Inl TypeError
           | Some s \<Rightarrow> Inr (rsa_verify L k h s)))"

section \<open>The communicator\<close>

text \<open>
  What \<^verbatim>\<open>pickle.loads\<close> gives a communicator is an instance of \<^verbatim>\<open>Message\<close> or of
  its subclass \<^verbatim>\<open>FileRequest\<close>; only the second has \<^verbatim>\<open>src_com_id\<close>,
  \<^verbatim>\<open>verify\<close> and \<^verbatim>\<open>sign\<close>.
\<close>

datatype 's wire = PlainMessage "'s message" | FileRequestMsg "'s file_request"

fun wire_type :: "'s wire \<Rightarrow> string" where
  "wire_type (PlainMessage m) = msg_type m"
| "wire_type (FileRequestMsg r) = msg_type r"

fun wire_content :: "'s wire \<Rightarrow> 's content" where
  "wire_content (PlainMessage m) = content m"
| "wire_content (FileRequestMsg r) = content r"

fun wire_request :: "'s wire \<Rightarrow> bool" where
  "wire_request (PlainMessage m) = request m"
| "wire_request (FileRequestMsg r) = request r"

fun wire_set_request :: "'s wire \<Rightarrow> bool \<Rightarrow> 's wire" where
  "wire_set_request (PlainMessage m) b = PlainMessage (m\<lparr>request := b\<rparr>)"
| "wire_set_request (FileRequestMsg r) b = FileRequestMsg (r\<lparr>request := b\<rparr>)"

fun wire_set_content :: "'s wire \<Rightarrow> 's content \<Rightarrow> 's wire" where
  "wire_set_content (PlainMessage m) c = PlainMessage (m\<lparr>content := c\<rparr>)"
| "wire_set_content (FileRequestMsg r) c = FileRequestMsg (r\<lparr>content := c\<rparr>)"

record ('K, 'k, 's) communicator =
  com_name :: string
  com_address :: address
  cr_address :: address
  loader :: "file_buffer \<Rightarrow> error + file_buffer"
  key :: 'K
  certificate :: "'s certificate"
  com_certificates :: "int \<rightharpoonup> 's certificate"
  com_keys :: "int \<rightharpoonup> 'k"
  communicators :: "int \<rightharpoonup> sp_descriptor"
  cr_certificate :: "'s certificate"
  cr_key :: 'k

text \<open>
  The two assignments of \<^verbatim>\<open>Communicator.register_certificate\<close>: the certificate
  into \<open>com_certificates\<close>, the imported key into \<open>com_keys\<close>, both under the
  identifier the certificate carries.
\<close>

definition cache_certificate ::
  "('K, 'k, 's) communicator \<Rightarrow> 's certificate \<Rightarrow> ('K, 'k, 's) communicator" where
  "cache_certificate self cert =
     self\<lparr>com_certificates := (com_certificates self)(cert_com_id cert \<mapsto> cert)\<rparr>"

definition cache_key ::
  "('K, 'k, 's) communicator \<Rightarrow> 's certificate \<Rightarrow> 'k \<Rightarrow> ('K, 'k, 's) communicator" where
  "cache_key self cert k = self\<lparr>com_keys := (com_keys self)(cert_com_id cert \<mapsto> k)\<rparr>"

text \<open>
  \<^verbatim>\<open>Communicator.register_certificate\<close>, for an argument that is \<^verbatim>\<open>None\<close> or a
  certificate. The certificate is stored first; the key is imported after that, inside
  the second assignment, and when the import raises, the first entry stays and the
  second is not made.
\<close>

definition register_certificate ::
  "('K, 'k, 's) lib \<Rightarrow> ('K, 'k, 's) communicator \<Rightarrow> 's certificate option
     \<Rightarrow> (error + bool) \<times> ('K, 'k, 's) communicator" where
  "register_certificate L self c =
     (case c of
        None \<Rightarrow> (Inr False, self)
      | Some cert \<Rightarrow>
          (case Certificate_verify L cert (cr_key self) of
             Inl e \<Rightarrow> (Inl e, self)
           | Inr False \<Rightarrow> (Inr False, self)
           | Inr True \<Rightarrow>
               (let self = cache_certificate self cert
                in case import_key L (cert_public_key cert) of
                     None \<Rightarrow> (Inl ValueError, self)
                   | Some k \<Rightarrow> (Inr True, cache_key self cert k))))"

text \<open>
  The content of a message reaches \<^verbatim>\<open>register_certificate\<close> as it was unpickled.
  \<^verbatim>\<open>None\<close> fails the test \<^verbatim>\<open>certificate is not None\<close>; anything else that is not a
  certificate has no \<^verbatim>\<open>verify\<close>.
\<close>

definition as_certificate :: "'s content \<Rightarrow> error + 's certificate option" where
  "as_certificate c =
     (case c of NoneC \<Rightarrow> Inr None | CertC cert \<Rightarrow> Inr (Some cert) | _ \<Rightarrow> Inl AttributeError)"

text \<open>
  \<^verbatim>\<open>CommunicatorHandler.handle\<close>. In the \<^verbatim>\<open>FETCH_FILE\<close> branch the attribute
  \<^verbatim>\<open>message.src_com_id\<close> is read first, then the dictionary \<^verbatim>\<open>com_keys\<close> is
  indexed with it, then the message is verified; the loader is called on the content
  only after that, and the message is signed last.
\<close>

definition CommunicatorHandler_handle ::
  "('K, 'k, 's) lib \<Rightarrow> ('K, 'k, 's) communicator \<Rightarrow> 's wire
     \<Rightarrow> (error + 's wire) \<times> ('K, 'k, 's) communicator" where
  "CommunicatorHandler_handle L srv received =
     (let message = wire_set_request received False in
      if wire_type message = CERTIFICATE then
        (case as_certificate (wire_content message) of
           Inl e \<Rightarrow> (Inl e, srv)
         | Inr c \<Rightarrow>
             (case register_certificate L srv c of
                (Inl e, srv') \<Rightarrow> (Inl e, srv')
              | (Inr True, srv') \<Rightarrow>
                  (Inr (wire_set_content message (CertC (certificate srv'))), srv')
              | (Inr False, srv') \<Rightarrow> (Inr (wire_set_content message NoneC), srv')))
      else if wire_type message = FETCH_FILE then
        (case message of
           PlainMessage m \<Rightarrow> (Inl AttributeError, srv)
         | FileRequestMsg r \<Rightarrow>
             (case com_keys srv (src_com_id r) of
                None \<Rightarrow> (Inl KeyError, srv)
              | Some k \<Rightarrow>
                  (case FileRequest_verify L r k of
                     Inl e \<Rightarrow> (Inl e, srv)
                   | Inr True \<Rightarrow>
                       (case content r of
                          BufferC b \<Rightarrow>
                            (case loader srv b of
                               Inl e \<Rightarrow> (Inl e, srv)
                             | Inr b' \<Rightarrow>
                                 (case FileRequest_sign L (r\<lparr>content := BufferC b'\<rparr>) (key srv) of
                                    Inl e \<Rightarrow> (Inl e, srv)
                                  | Inr r' \<Rightarrow> (Inr (FileRequestMsg r'), srv)))
                        | _ \<Rightarrow> (Inl AttributeError, srv))
                   | Inr False \<Rightarrow> (Inr (FileRequestMsg (r\<lparr>request := True\<rparr>)), srv))))
      else (Inr message, srv))"

subsection \<open>The client role\<close>

text \<open>
  Every call opens a connection, sends one pickled message and reads one reply. What is
  at the other end is the parameter \<open>net\<close>: from its own state \<open>'w\<close>, the address
  and the message sent it gives the reply, or the exception that \<^verbatim>\<open>connect\<close>,
  \<^verbatim>\<open>recv\<close> or \<^verbatim>\<open>pickle.loads\<close> raises.
\<close>

type_synonym ('s, 'w) network = "'w \<Rightarrow> address \<Rightarrow> 's wire \<Rightarrow> (error + 's wire) \<times> 'w"

definition send_and_get_reply ::
  "('s, 'w) network \<Rightarrow> 'w \<Rightarrow> 's wire \<Rightarrow> address \<Rightarrow> (error + 's content) \<times> 'w" where
  "send_and_get_reply net w message addr =
     (case net w addr message of
        (Inl e, w') \<Rightarrow> (Inl e, w')
      | (Inr reply, w') \<Rightarrow> (Inr (wire_content reply), w'))"

definition get_certificate ::
  "('s, 'w) network \<Rightarrow> 'w \<Rightarrow> address \<Rightarrow> 's content \<Rightarrow> (error + 's content) \<times> 'w" where
  "get_certificate net w addr c =
     (case Message_init CERTIFICATE c of
        Inl e \<Rightarrow> (Inl e, w)
      | Inr message \<Rightarrow> send_and_get_reply net w (PlainMessage message) addr)"

definition exchange_certificate ::
  "('K, 'k, 's) lib \<Rightarrow> ('s, 'w) network \<Rightarrow> ('K, 'k, 's) communicator \<Rightarrow> 'w \<Rightarrow> address
     \<Rightarrow> (error + bool) \<times> ('K, 'k, 's) communicator \<times> 'w" where
  "exchange_certificate L net self w addr =
     (case get_certificate net w addr (CertC (certificate self)) of
        (Inl e, w') \<Rightarrow> (Inl e, self, w')
      | (Inr com_certificate, w') \<Rightarrow>
          (case as_certificate com_certificate of
             Inl e \<Rightarrow> (Inl e, self, w')
           | Inr c \<Rightarrow>
               (let (accepted, self') = register_certificate L self c
                in (accepted, self', w'))))"

definition Communicator_publish ::
  "('s, 'w) network \<Rightarrow> ('K, 'k, 's) communicator \<Rightarrow> 'w \<Rightarrow> file_descriptor list
     \<Rightarrow> (error + 's content) \<times> 'w" where
  "Communicator_publish net self w files =
     (let files = map (\<lambda>f. f\<lparr>fd_com_id := cert_com_id (certificate self)\<rparr>) files in
      case Message_init PUBLISH (FilesC files) of
        Inl e \<Rightarrow> (Inl e, w)
      | Inr message \<Rightarrow> send_and_get_reply net w (PlainMessage message) (cr_address self))"

text \<open>
  The second half of \<^verbatim>\<open>fetch_file\<close>, from the construction of the
  \<^verbatim>\<open>FileRequest\<close> to \<^verbatim>\<open>return message.content\<close>; both branches of the test on
  the certificate cache continue here. The request is signed before the socket is
  opened. In \<^verbatim>\<open>message.verify(self.com_keys[com_id])\<close> the method is looked up before
  the dictionary is indexed.
\<close>

definition request_file ::
  "('K, 'k, 's) lib \<Rightarrow> ('s, 'w) network \<Rightarrow> ('K, 'k, 's) communicator \<Rightarrow> 'w \<Rightarrow> address \<Rightarrow> int
     \<Rightarrow> file_buffer \<Rightarrow> string \<Rightarrow> (error + 's content) \<times> 'w" where
  "request_file L net self w addr com_id buffer user =
     (case FileRequest_init buffer (cert_com_id (certificate self)) user of
        Inl e \<Rightarrow> (Inl e, w)
      | Inr message \<Rightarrow>
          (case FileRequest_sign L message (key self) of
             Inl e \<Rightarrow> (Inl e, w)
           | Inr message \<Rightarrow>
               (case net w addr (FileRequestMsg message) of
                  (Inl e, w') \<Rightarrow> (Inl e, w')
                | (Inr reply, w') \<Rightarrow>
                    (if wire_request reply then (Inr (wire_content reply), w')
                     else
                       (case reply of
                          PlainMessage m \<Rightarrow> (Inl AttributeError, w')
                        | FileRequestMsg r \<Rightarrow>
                            (case com_keys self com_id of
                               None \<Rightarrow> (Inl KeyError, w')
                             | Some k \<Rightarrow>
                                 (case FileRequest_verify L r k of
                                    Inl e \<Rightarrow> (Inl e, w')
                                  | Inr verified \<Rightarrow> (Inr (wire_content reply), w'))))))))"

text \<open>
  \<^verbatim>\<open>Communicator.fetch_file\<close>. \<^verbatim>\<open>return None\<close> after a failed exchange is the
  content \<open>NoneC\<close>.
\<close>

definition fetch_file ::
  "('K, 'k, 's) lib \<Rightarrow> ('s, 'w) network \<Rightarrow> ('K, 'k, 's) communicator \<Rightarrow> 'w \<Rightarrow> file_buffer
     \<Rightarrow> string \<Rightarrow> (error + 's content) \<times> ('K, 'k, 's) communicator \<times> 'w" where
  "fetch_file L net self w buffer user =
     (let com_id = fd_com_id (descriptor buffer) in
      case communicators self com_id of
        None \<Rightarrow> (Inl KeyError, self, w)
      | Some sp \<Rightarrow>
          (let addr = sp_address sp in
           if com_id \<in> dom (com_certificates self) then
             (let (result, w') = request_file L net self w addr com_id buffer user
              in (result, self, w'))
           else
             (case exchange_certificate L net self w addr of
                (Inl e, self', w') \<Rightarrow> (Inl e, self', w')
              | (Inr False, self', w') \<Rightarrow> (Inr NoneC, self', w')
              | (Inr True, self', w') \<Rightarrow>
                  (let (result, w'') = request_file L net self' w' addr com_id buffer user
                   in (result, self', w'')))))"

subsection \<open>What is at the other end of a connection\<close>


text \<open>
  A connection answered by the handler of a communicator. A handler that raises sends
  nothing; the connection is closed, \<^verbatim>\<open>recv\<close> returns no bytes and \<^verbatim>\<open>pickle.loads\<close>
  raises \<^verbatim>\<open>EOFError\<close>. A message that is sent arrives whole: it is taken to fit the
  \<^verbatim>\<open>BUFFER_SIZE\<close> bytes that one \<^verbatim>\<open>recv\<close> reads.
\<close>

definition to_communicator ::
  "('K, 'k, 's) lib \<Rightarrow> ('s, ('K, 'k, 's) communicator) network" where
  "to_communicator L = (\<lambda>srv addr message.
     case CommunicatorHandler_handle L srv message of
       (Inl e, srv') \<Rightarrow> (Inl EOFError, srv')
     | (Inr reply, srv') \<Rightarrow> (Inr reply, srv'))"

text \<open>The same for a connection answered by the handler of the registry.\<close>

definition to_registry :: "('K, 'k, 's) lib \<Rightarrow> ('s, ('K, 's) registry) network" where
  "to_registry L = (\<lambda>srv addr message.
     case message of
       PlainMessage m \<Rightarrow>
         (case RequestHandler_handle L srv m of
            (Inl e, srv') \<Rightarrow> (Inl EOFError, srv')
          | (Inr reply, srv') \<Rightarrow> (Inr (PlainMessage reply), srv'))
     | FileRequestMsg r \<Rightarrow>
         (case RequestHandler_handle L srv r of
            (Inl e, srv') \<Rightarrow> (Inl EOFError, srv')
          | (Inr reply, srv') \<Rightarrow> (Inr (FileRequestMsg reply), srv')))"

section \<open>Concrete instances\<close>

text \<open>
  An instance of the library small enough to compute with: a key object is its name, a
  signature is the pair of the signing key and the digest signed, the digest of a byte
  string is the string itself, and every byte string but one imports as a key.
\<close>

definition toy_lib :: "(string, string, string \<times> bytes) lib" where
  "toy_lib =
     \<lparr>sha256 = (\<lambda>d. d), rsa_sign = (\<lambda>k h. (k, h)),
      rsa_verify = (\<lambda>k h s. s = (k, h)),
      import_key = (\<lambda>pem. if pem = ''not a key'' then None else Some pem),
      export_public_key = (\<lambda>k. k)\<rparr>"

text \<open>
  The message \<^verbatim>\<open>Message(Message.SIGN, self.certificate)\<close> that
  \<^verbatim>\<open>Communicator.__sign_certificate\<close> sends.
\<close>

definition sign_request :: "'s certificate \<Rightarrow> 's message" where
  "sign_request c = \<lparr>msg_type = SIGN, content = CertC c, request = True\<rparr>"

text \<open>Certificates before they are signed; the third name ends in a character that is not ASCII.\<close>

definition alice0 :: "(string \<times> bytes) certificate" where
  "alice0 = Certificate_init ''alice'' (''10.0.0.1'', 5001) ''alice-pem''"

definition bob0 :: "(string \<times> bytes) certificate" where
  "bob0 = Certificate_init ''bob'' (''10.0.0.2'', 5002) ''bob-pem''"

definition zoe0 :: "(string \<times> bytes) certificate" where
  "zoe0 = Certificate_init [CHR ''Z'', CHR ''o'', CHR 0xE9] (''10.0.0.4'', 5004) ''zoe-pem''"

definition registry0 :: "(string, string \<times> bytes) registry" where
  "registry0 = CentralRegistry_init toy_lib ''cr'' (''10.0.0.9'', 5000) ''cr-key''"

text \<open>
  The certificates the registry issues to Alice and Bob; one that its holder signed
  with her own key; and one the registry signed whose public key is no key.
\<close>

definition alice1 :: "(string \<times> bytes) certificate" where
  "alice1 = alice0\<lparr>cert_signature := Some (''cr-key'', ''alicealice-pem''), cert_com_id := 1\<rparr>"

definition bob1 :: "(string \<times> bytes) certificate" where
  "bob1 = bob0\<lparr>cert_signature := Some (''cr-key'', ''bobbob-pem''), cert_com_id := 2\<rparr>"

definition mallory1 :: "(string \<times> bytes) certificate" where
  "mallory1 =
     \<lparr>cert_name = ''mallory'', cert_address = (''10.0.0.3'', 5003),
      cert_public_key = ''mallory-pem'',
      cert_signature = Some (''mallory-pem'', ''mallorymallory-pem''), cert_com_id = 1\<rparr>"

definition eve1 :: "(string \<times> bytes) certificate" where
  "eve1 =
     \<lparr>cert_name = ''eve'', cert_address = (''10.0.0.5'', 5005),
      cert_public_key = ''not a key'',
      cert_signature = Some (''cr-key'', ''evenot a key''), cert_com_id = 3\<rparr>"

text \<open>A loader that knows two files; a line of the second is not ASCII.\<close>

definition disk :: "file_buffer \<Rightarrow> error + file_buffer" where
  "disk b =
     (if fd_name (descriptor b) = ''notes.txt''
      then Inr (b\<lparr>lines := [''first line'', ''second line'']\<rparr>)
      else if fd_name (descriptor b) = ''menu.txt''
      then Inr (b\<lparr>lines := [''today'', [CHR ''c'', CHR ''a'', CHR ''f'', CHR 0xE9]]\<rparr>)
      else Inl OSError)"

text \<open>
  Two communicators as their constructor leaves them, and one that holds an older key
  of the registry as its trust anchor.
\<close>

definition alice :: "(string, string, string \<times> bytes) communicator" where
  "alice =
     \<lparr>com_name = ''alice'', com_address = (''10.0.0.1'', 5001),
      cr_address = (''10.0.0.9'', 5000), loader = disk, key = ''alice-pem'',
      certificate = alice1, com_certificates = Map.empty, com_keys = Map.empty,
      communicators = Map.empty, cr_certificate = reg_certificate registry0,
      cr_key = ''cr-key''\<rparr>"

definition bob :: "(string, string, string \<times> bytes) communicator" where
  "bob =
     \<lparr>com_name = ''bob'', com_address = (''10.0.0.2'', 5002),
      cr_address = (''10.0.0.9'', 5000), loader = disk, key = ''bob-pem'',
      certificate = bob1, com_certificates = Map.empty, com_keys = Map.empty,
      communicators = Map.empty, cr_certificate = reg_certificate registry0,
      cr_key = ''cr-key''\<rparr>"

definition alice_stale :: "(string, string, string \<times> bytes) communicator" where
  "alice_stale = alice\<lparr>cr_key := ''old-cr-key''\<rparr>"

text \<open>
  A communicator that runs with the certificate whose public key is no key, and one
  that runs with a certificate that was never signed.
\<close>

definition eve :: "(string, string, string \<times> bytes) communicator" where
  "eve = alice\<lparr>com_name := ''eve'', com_address := (''10.0.0.5'', 5005), key := ''eve-key'',
     certificate := eve1\<rparr>"

definition alice_unsigned :: "(string, string, string \<times> bytes) communicator" where
  "alice_unsigned = alice\<lparr>certificate := alice0\<rparr>"

text \<open>
  Bob with the directory of service providers cached, and buffers for two files of
  Alice's.
\<close>

definition alice_sp :: sp_descriptor where
  "alice_sp = \<lparr>sp_com_id = 1, sp_name = ''alice'', sp_address = (''10.0.0.1'', 5001)\<rparr>"

definition bob2 :: "(string, string, string \<times> bytes) communicator" where
  "bob2 = bob\<lparr>communicators := [1 \<mapsto> alice_sp]\<rparr>"

definition notes_txt :: file_descriptor where
  "notes_txt =
     \<lparr>fd_name = ''notes.txt'', fd_author = ''alice'', fd_description = ''first line'',
      fd_file_id = 1, fd_com_id = 1\<rparr>"

definition menu_txt :: file_descriptor where
  "menu_txt =
     \<lparr>fd_name = ''menu.txt'', fd_author = ''alice'', fd_description = ''today'',
      fd_file_id = 2, fd_com_id = 1\<rparr>"

definition buffer0 :: file_buffer where
  "buffer0 = \<lparr>buffer_id = 1, descriptor = notes_txt, lines = []\<rparr>"

definition buffer1 :: file_buffer where
  "buffer1 = \<lparr>buffer_id = 2, descriptor = menu_txt, lines = []\<rparr>"


definition unsigned_request ::
  "('K, 'k, 's) communicator \<Rightarrow> file_buffer \<Rightarrow> string \<Rightarrow> 's file_request" where
  "unsigned_request self buffer user =
     \<lparr>msg_type = FETCH_FILE, content = BufferC buffer, request = True,
      username = user, src_com_id = cert_com_id (certificate self), signature = None\<rparr>"


text \<open>
  Alice and Bob after a completed exchange; requests Bob built for Carol: signed,
  under a signature that is not Bob's, not signed at all, and signed for the second
  file; and the reply Alice's handler gives to the first.
\<close>

definition alice2 :: "(string, string, string \<times> bytes) communicator" where
  "alice2 = alice\<lparr>com_certificates := [2 \<mapsto> bob1], com_keys := [2 \<mapsto> ''bob-pem'']\<rparr>"

definition bob3 :: "(string, string, string \<times> bytes) communicator" where
  "bob3 = bob2\<lparr>com_certificates := [1 \<mapsto> alice1], com_keys := [1 \<mapsto> ''alice-pem'']\<rparr>"

definition request_ok :: "(string \<times> bytes) file_request" where
  "request_ok =
     (unsigned_request bob3 buffer0 ''carol'')
       \<lparr>signature := Some (''bob-pem'', ''carolFETCH_FILE1 2 1 1'')\<rparr>"

definition request_forged :: "(string \<times> bytes) file_request" where
  "request_forged =
     (unsigned_request bob3 buffer0 ''carol'')
       \<lparr>signature := Some (''mallory-pem'', ''carolFETCH_FILE1 2 1 1'')\<rparr>"

definition request_unsigned :: "(string \<times> bytes) file_request" where
  "request_unsigned = unsigned_request bob3 buffer0 ''carol''"

definition request_menu :: "(string \<times> bytes) file_request" where
  "request_menu =
     (unsigned_request bob3 buffer1 ''carol'')
       \<lparr>signature := Some (''bob-pem'', ''carolFETCH_FILE1 2 1 2'')\<rparr>"

definition reply_ok :: "(string \<times> bytes) file_request" where
  "reply_ok =
     request_ok
       \<lparr>request := False,
        content := BufferC (buffer0\<lparr>lines := [''first line'', ''second line'']\<rparr>),
        signature := Some (''alice-pem'', ''carolFETCH_FILEfirst linesecond line1 2 1 1'')\<rparr>"

text \<open>A request for a loaded buffer of the file with identifier 7.\<close>

definition request7 :: "(string \<times> bytes) file_request" where
  "request7 =
     \<lparr>msg_type = FETCH_FILE,
      content = BufferC \<lparr>buffer_id = 3, descriptor = notes_txt\<lparr>fd_file_id := 7\<rparr>,
         lines = [''first line'', ''second line'']\<rparr>,
      request = False, username = ''carol'', src_com_id = 2, signature = None\<rparr>"

text \<open>
  A peer that answers every file request with a refusal, and puts text of its own into
  the buffer it sends back.
\<close>

definition pushy_peer :: "(string \<times> bytes, unit) network" where
  "pushy_peer = (\<lambda>w addr message.
     case message of
       PlainMessage m \<Rightarrow> (Inl EOFError, w)
     | FileRequestMsg r \<Rightarrow>
         (Inr (FileRequestMsg (r\<lparr>request := True,
            content := BufferC (buffer0\<lparr>lines := [''unverified text'']\<rparr>)\<rparr>)), w))"

text \<open>
  The same request for a file the loader does not find; the name of the file is not
  covered by the hash, so the signature is still Bob's.
\<close>

definition request_gone :: "(string \<times> bytes) file_request" where
  "request_gone =
     request_ok\<lparr>content := BufferC (buffer0\<lparr>descriptor := notes_txt\<lparr>fd_name := ''gone.txt''\<rparr>\<rparr>)\<rparr>"

text \<open>
  A peer that answers every file request with the reply it was given, and a line of
  text with a character that is not ASCII.
\<close>

definition scripted_peer :: "'s file_request \<Rightarrow> ('s, unit) network" where
  "scripted_peer reply = (\<lambda>w addr message.
     case message of
       PlainMessage m \<Rightarrow> (Inl EOFError, w)
     | FileRequestMsg r \<Rightarrow> (Inr (FileRequestMsg reply), w))"

definition cafe :: string where
  "cafe = [CHR ''c'', CHR ''a'', CHR ''f'', CHR 0xE9]"


section \<open>Properties of the registry\<close>

lemmas type_tags = CERTIFICATE_def SIGN_def PUBLISH_def FETCH_SP_def FETCH_FILE_def TYPES_def

lemma encode_ascii_simps [simp]:
  "is_ascii s \<Longrightarrow> encode_ascii s = Inr s"
  "\<not> is_ascii s \<Longrightarrow> encode_ascii s = Inl UnicodeEncodeError"
  by (simp_all add: encode_ascii_def)

lemma Message_init_SIGN: "Message_init SIGN (CertC c) = Inr (sign_request c)"
  by (simp add: Message_init_def sign_request_def type_tags)

lemma Certificate_hash_eq:
  "Certificate_hash L c =
     (if is_ascii (cert_name c) then Inr (sha256 L (cert_name c @ cert_public_key c))
      else Inl UnicodeEncodeError)"
  by (simp add: Certificate_hash_def sha256_new_def sha256_update_def sha256_digest_def)

lemma Certificate_verify_eq:
  "Certificate_verify L c k =
     (if \<not> is_ascii (cert_name c) then Inl UnicodeEncodeError
      else case cert_signature c of
             None \<Rightarrow> Inl TypeError
           | Some s \<Rightarrow> Inr (rsa_verify L k (sha256 L (cert_name c @ cert_public_key c)) s))"
  by (simp add: Certificate_verify_def Certificate_hash_eq)


text \<open>
  \<^verbatim>\<open>CentralRegistry.publish\<close> moves the file counter by the length of the list,
  keeps the length, writes no entry of the file directory outside the range it
  allocates, and leaves the key, the communicator counter and the directory of service
  providers alone.
\<close>

lemma publish_frame:
  "file_id_counter (snd (CentralRegistry_publish srv files)) =
     file_id_counter srv + int (length files) \<and>
   length (fst (CentralRegistry_publish srv files)) = length files \<and>
   (\<forall>i. i < file_id_counter srv \<or> file_id_counter srv + int (length files) \<le> i \<longrightarrow>
      public_files (snd (CentralRegistry_publish srv files)) i = public_files srv i) \<and>
   com_id_counter (snd (CentralRegistry_publish srv files)) = com_id_counter srv \<and>
   service_providers (snd (CentralRegistry_publish srv files)) = service_providers srv \<and>
   reg_key (snd (CentralRegistry_publish srv files)) = reg_key srv"
proof (induction files arbitrary: srv)
  case Nil
  then show ?case by simp
next
  case (Cons f files)
  let ?srv = "srv\<lparr>file_id_counter := file_id_counter srv + 1,
      public_files := (public_files srv)(file_id_counter srv \<mapsto>
        f\<lparr>fd_file_id := file_id_counter srv\<rparr>)\<rparr>"
  show ?case
    using Cons.IH [of ?srv]
    by (simp add: Let_def split_beta)
qed





text \<open>
  Of two \<^verbatim>\<open>SIGN\<close> requests carrying a certificate, the later one has more such
  requests before it, so the identifier it takes is the greater one.
\<close>

lemma sign_identifiers_increase:
  assumes "p < q" and "q \<le> length ms" and "carries_certificate (ms ! p)"
  shows "length (filter carries_certificate (take p ms)) <
         length (filter carries_certificate (take q ms))"
proof -
  have p: "p < length ms" using assms by simp
  have a: "take (Suc p) (take q ms) = take p ms @ [ms ! p]"
    using assms p by (simp add: min_def take_Suc_conv_app_nth)
  have "filter carries_certificate (take q ms) =
      filter carries_certificate (take (Suc p) (take q ms)) @
      filter carries_certificate (drop (Suc p) (take q ms))"
    by (simp only: filter_append [symmetric] append_take_drop_id)
  then show ?thesis
    using assms(3) by (simp only: a) simp
qed






subsection \<open>The reply flag\<close>

text \<open>
  A message of a type the handler does not know is answered with \<open>request = True\<close>,
  and the registry is unchanged.
\<close>

lemma handle_unsupported:
  "msg_type m \<notin> set TYPES \<Longrightarrow> RequestHandler_handle L srv m = (Inr (m\<lparr>request := True\<rparr>), srv)"
  by (simp add: RequestHandler_handle_def TYPES_def)

text \<open>
  Whenever the handler replies, the flag of the reply tells whether the type was known.
\<close>

lemma handle_reply_flag:
  "RequestHandler_handle L srv m = (Inr reply, srv') \<Longrightarrow>
   request reply \<longleftrightarrow> msg_type m \<notin> set TYPES"
  by (auto simp add: RequestHandler_handle_def TYPES_def Let_def split_beta
      split: if_splits content.splits sum.splits prod.splits)

text \<open>
  C9. A message of the supported type \<^verbatim>\<open>PUBLISH\<close> that carries the empty list of
  file descriptors is not answered with \<open>request = False\<close>. It is not answered at
  all: the log line of the branch evaluates \<^verbatim>\<open>files[0].com_id\<close>, which raises
  \<^verbatim>\<open>IndexError\<close> before \<^verbatim>\<open>publish\<close> and \<^verbatim>\<open>sendall\<close> are reached.
\<close>

theorem publish_empty_no_reply:
  "RequestHandler_handle L srv \<lparr>msg_type = PUBLISH, content = FilesC [], request = True\<rparr> =
     (Inl IndexError, srv)"
  by (simp add: RequestHandler_handle_def type_tags)

section \<open>Properties of the communicator\<close>

subsection \<open>Registering a certificate\<close>

lemma register_certificate_None: "register_certificate L self None = (Inr False, self)"
  by (simp add: register_certificate_def)

text \<open>
  \<^verbatim>\<open>Communicator.register_certificate\<close> for a certificate, by the outcome of the
  verification and of the import of the key.
\<close>

lemma register_certificate_Some:
  "register_certificate L self (Some cert) =
     (case Certificate_verify L cert (cr_key self) of
        Inl e \<Rightarrow> (Inl e, self)
      | Inr False \<Rightarrow> (Inr False, self)
      | Inr True \<Rightarrow>
          (case import_key L (cert_public_key cert) of
             None \<Rightarrow> (Inl ValueError, cache_certificate self cert)
           | Some k \<Rightarrow> (Inr True, cache_key (cache_certificate self cert) cert k)))"
  by (simp add: register_certificate_def Let_def split: sum.splits bool.splits option.splits)

lemma cache_lookup [simp]:
  "com_certificates (cache_certificate self cert) =
     (com_certificates self)(cert_com_id cert \<mapsto> cert)"
  "com_keys (cache_certificate self cert) = com_keys self"
  "com_keys (cache_key self cert k) = (com_keys self)(cert_com_id cert \<mapsto> k)"
  "com_certificates (cache_key self cert k) = com_certificates self"
  by (simp_all add: cache_certificate_def cache_key_def)

lemma cache_identity [simp]:
  "certificate (cache_certificate self cert) = certificate self"
  "certificate (cache_key self cert k) = certificate self"
  "key (cache_certificate self cert) = key self"
  "key (cache_key self cert k) = key self"
  "cr_key (cache_certificate self cert) = cr_key self"
  "cr_key (cache_key self cert k) = cr_key self"
  "communicators (cache_certificate self cert) = communicators self"
  "communicators (cache_key self cert k) = communicators self"
  "loader (cache_certificate self cert) = loader self"
  "loader (cache_key self cert k) = loader self"
  by (simp_all add: cache_certificate_def cache_key_def)

lemma verify_toy:
  "Certificate_verify toy_lib alice1 ''cr-key'' = Inr True"
  "Certificate_verify toy_lib bob1 ''cr-key'' = Inr True"
  "Certificate_verify toy_lib eve1 ''cr-key'' = Inr True"
  "Certificate_verify toy_lib bob1 ''old-cr-key'' = Inr False"
  "Certificate_verify toy_lib alice1 ''old-cr-key'' = Inr False"
  "Certificate_verify toy_lib mallory1 ''cr-key'' = Inr False"
  "Certificate_verify toy_lib alice0 ''cr-key'' = Inl TypeError"
  "Certificate_verify toy_lib zoe0 ''cr-key'' = Inl UnicodeEncodeError"
  by (simp_all add: Certificate_verify_eq toy_lib_def alice1_def alice0_def bob1_def bob0_def
      mallory1_def eve1_def zoe0_def Certificate_init_def is_ascii_def)

lemma toy_fields:
  "certificate alice = alice1" "certificate bob = bob1" "cr_key alice = ''cr-key''"
  "cr_key bob = ''cr-key''" "certificate alice_stale = alice1"
  "cr_key alice_stale = ''old-cr-key''"
  "cert_com_id alice1 = 1" "cert_com_id bob1 = 2" "cert_com_id eve1 = 3"
  "cert_public_key alice1 = ''alice-pem''" "cert_public_key bob1 = ''bob-pem''"
  "cert_public_key eve1 = ''not a key''"
  "com_certificates bob = Map.empty" "com_keys bob = Map.empty"
  "com_certificates alice = Map.empty" "com_keys alice = Map.empty"
  "com_certificates alice_stale = Map.empty" "com_keys alice_stale = Map.empty"
  "import_key toy_lib ''alice-pem'' = Some ''alice-pem''"
  "import_key toy_lib ''bob-pem'' = Some ''bob-pem''"
  "import_key toy_lib ''not a key'' = None"
  by (simp_all add: alice_def bob_def alice_stale_def alice1_def bob1_def alice0_def bob0_def
      eve1_def Certificate_init_def toy_lib_def)

lemma toy_fields2:
  "certificate bob2 = bob1" "cr_key bob2 = ''cr-key''" "com_certificates bob2 = Map.empty"
  "com_keys bob2 = Map.empty" "communicators bob2 1 = Some alice_sp"
  "communicators bob 1 = None"
  "fd_com_id (descriptor buffer0) = 1" "sp_address alice_sp = (''10.0.0.1'', 5001)"
  "key bob2 = ''bob-pem''" "key bob = ''bob-pem''"
  by (simp_all add: bob2_def bob_def buffer0_def notes_txt_def alice_sp_def)

lemma toy_fields_eve:
  "certificate eve = eve1" "cr_key eve = ''cr-key''"
  "certificate alice_unsigned = alice0" "cr_key alice_unsigned = ''cr-key''"
  by (simp_all add: eve_def alice_unsigned_def alice_def)

text \<open>
  C2. \<^verbatim>\<open>register_certificate\<close> returns true exactly when its argument is a
  certificate (not \<^verbatim>\<open>None\<close>) for which \<^verbatim>\<open>verify\<close> returns true against the
  registry's public key and whose public key bytes \<^verbatim>\<open>RSA.importKey\<close> accepts. Then
  the communicator afterwards differs from the one before in two entries only: the
  certificate in \<open>com_certificates\<close> and the imported key in \<open>com_keys\<close>, both
  under the certificate's identifier. It returns false exactly when the argument is
  \<^verbatim>\<open>None\<close> or \<^verbatim>\<open>verify\<close> returns false, and then the communicator is the one
  before the call. In the remaining cases it raises: when \<^verbatim>\<open>verify\<close> raises (a
  certificate that was never signed, or a name that is not ASCII) with the communicator
  unchanged, and when \<^verbatim>\<open>RSA.importKey\<close> raises, with the certificate already written
  to \<open>com_certificates\<close> and no key in \<open>com_keys\<close>.
\<close>

theorem register_certificate_outcomes:
  "(fst (register_certificate L self c) = Inr True \<longleftrightarrow>
      (\<exists>cert k. c = Some cert \<and> Certificate_verify L cert (cr_key self) = Inr True \<and>
         import_key L (cert_public_key cert) = Some k)) \<and>
   (\<forall>cert k. c = Some cert \<and> Certificate_verify L cert (cr_key self) = Inr True \<and>
        import_key L (cert_public_key cert) = Some k \<longrightarrow>
      snd (register_certificate L self c) = cache_key (cache_certificate self cert) cert k) \<and>
   (fst (register_certificate L self c) = Inr False \<longleftrightarrow>
      c = None \<or> (\<exists>cert. c = Some cert \<and> Certificate_verify L cert (cr_key self) = Inr False)) \<and>
   (fst (register_certificate L self c) = Inr False \<longrightarrow>
      snd (register_certificate L self c) = self) \<and>
   (\<forall>cert e. c = Some cert \<and> Certificate_verify L cert (cr_key self) = Inl e \<longrightarrow>
      register_certificate L self c = (Inl e, self)) \<and>
   (\<forall>cert. c = Some cert \<and> Certificate_verify L cert (cr_key self) = Inr True \<and>
        import_key L (cert_public_key cert) = None \<longrightarrow>
      register_certificate L self c = (Inl ValueError, cache_certificate self cert))"
proof (cases c)
  case None
  then show ?thesis by (simp add: register_certificate_None)
next
  case (Some cert)
  show ?thesis
  proof (cases "Certificate_verify L cert (cr_key self)")
    case (Inl e)
    with Some show ?thesis by (simp add: register_certificate_Some)
  next
    case (Inr v)
    with Some show ?thesis
      by (cases v; cases "import_key L (cert_public_key cert)")
        (simp_all add: register_certificate_Some)
  qed
qed

theorem register_certificate_outcomes_witness:
  "register_certificate toy_lib bob (Some alice1) =
     (Inr True, cache_key (cache_certificate bob alice1) alice1 ''alice-pem'') \<and>
   com_certificates (snd (register_certificate toy_lib bob (Some alice1))) 1 = Some alice1 \<and>
   com_keys (snd (register_certificate toy_lib bob (Some alice1))) 1 = Some ''alice-pem'' \<and>
   register_certificate toy_lib bob (Some mallory1) = (Inr False, bob) \<and>
   register_certificate toy_lib bob None = (Inr False, bob) \<and>
   register_certificate toy_lib bob (Some alice0) = (Inl TypeError, bob) \<and>
   register_certificate toy_lib bob (Some zoe0) = (Inl UnicodeEncodeError, bob) \<and>
   register_certificate toy_lib bob (Some eve1) = (Inl ValueError, cache_certificate bob eve1)"
proof -
  have a: "register_certificate toy_lib bob (Some alice1) =
     (Inr True, cache_key (cache_certificate bob alice1) alice1 ''alice-pem'')"
    using register_certificate_outcomes [of toy_lib bob "Some alice1"]
    by (simp add: toy_fields verify_toy prod_eq_iff)
  have "register_certificate toy_lib bob (Some mallory1) = (Inr False, bob)"
    using register_certificate_outcomes [of toy_lib bob "Some mallory1"]
    by (simp add: toy_fields verify_toy prod_eq_iff)
  moreover have "register_certificate toy_lib bob None = (Inr False, bob)"
    using register_certificate_outcomes [of toy_lib bob None]
    by (simp add: prod_eq_iff)
  moreover have "register_certificate toy_lib bob (Some alice0) = (Inl TypeError, bob)"
    using register_certificate_outcomes [of toy_lib bob "Some alice0"]
    by (simp add: toy_fields verify_toy)
  moreover have "register_certificate toy_lib bob (Some zoe0) = (Inl UnicodeEncodeError, bob)"
    using register_certificate_outcomes [of toy_lib bob "Some zoe0"]
    by (simp add: toy_fields verify_toy)
  moreover have "register_certificate toy_lib bob (Some eve1) =
     (Inl ValueError, cache_certificate bob eve1)"
    using register_certificate_outcomes [of toy_lib bob "Some eve1"]
    by (simp add: toy_fields verify_toy)
  ultimately show ?thesis
    using a by (simp add: toy_fields)
qed

text \<open>
  The claim as the specification words it is false in both directions. A certificate
  that nobody signed is not answered with false: the call raises \<^verbatim>\<open>TypeError\<close>.
  And a certificate that verifies against the registry's key, but whose public key
  bytes are no key, does not make the call return true with both caches written: the
  call raises \<^verbatim>\<open>ValueError\<close>, the certificate is in \<open>com_certificates\<close> and
  \<open>com_keys\<close> has no entry for it.
\<close>

theorem unsigned_certificate_counterexample:
  "cert_signature alice0 = None \<and>
   register_certificate toy_lib bob (Some alice0) = (Inl TypeError, bob) \<and>
   Certificate_verify toy_lib eve1 (cr_key bob) = Inr True \<and>
   fst (register_certificate toy_lib bob (Some eve1)) = Inl ValueError \<and>
   com_certificates (snd (register_certificate toy_lib bob (Some eve1))) 3 = Some eve1 \<and>
   com_keys (snd (register_certificate toy_lib bob (Some eve1))) 3 = None"
proof -
  have "cert_signature alice0 = None"
    by (simp add: alice0_def Certificate_init_def)
  then show ?thesis
    by (simp add: register_certificate_Some verify_toy toy_fields)
qed

subsection \<open>The exchange of certificates between two communicators\<close>

lemma handle_CERTIFICATE:
  "CommunicatorHandler_handle L srv
     (PlainMessage \<lparr>msg_type = CERTIFICATE, content = CertC cert, request = rq\<rparr>) =
     (case register_certificate L srv (Some cert) of
        (Inl e, srv') \<Rightarrow> (Inl e, srv')
      | (Inr True, srv') \<Rightarrow>
          (Inr (PlainMessage \<lparr>msg_type = CERTIFICATE, content = CertC (certificate srv'),
                  request = False\<rparr>), srv')
      | (Inr False, srv') \<Rightarrow>
          (Inr (PlainMessage \<lparr>msg_type = CERTIFICATE, content = NoneC, request = False\<rparr>), srv'))"
  by (simp add: CommunicatorHandler_handle_def as_certificate_def
      split: prod.splits sum.splits bool.splits)

lemma register_certificate_identity:
  "certificate (snd (register_certificate L self c)) = certificate self \<and>
   key (snd (register_certificate L self c)) = key self \<and>
   cr_key (snd (register_certificate L self c)) = cr_key self"
  by (simp add: register_certificate_def Let_def
      split: option.splits sum.splits bool.splits)

text \<open>
  \<open>A\<close> runs \<^verbatim>\<open>__exchange_certificate\<close> on a connection that the handler of
  \<open>B\<close> answers. \<open>B\<close> registers the certificate of \<open>A\<close> before it replies, and
  nothing tells it afterwards what \<open>A\<close> did with the answer. When the registration
  at \<open>B\<close> raises, \<open>B\<close> sends nothing and \<open>A\<close> raises \<^verbatim>\<open>EOFError\<close>.
\<close>

lemma exchange_with_communicator:
  "exchange_certificate L (to_communicator L) A B addr =
     (case register_certificate L B (Some (certificate A)) of
        (Inl e, B') \<Rightarrow> (Inl EOFError, A, B')
      | (Inr False, B') \<Rightarrow> (Inr False, A, B')
      | (Inr True, B') \<Rightarrow>
          (case register_certificate L A (Some (certificate B)) of
             (r, A') \<Rightarrow> (r, A', B')))"
proof -
  obtain rb B' where rb: "register_certificate L B (Some (certificate A)) = (rb, B')"
    by (cases "register_certificate L B (Some (certificate A))") auto
  have cert: "certificate B' = certificate B"
    using register_certificate_identity [of L B "Some (certificate A)"] rb by simp
  show ?thesis
  proof (cases rb)
    case (Inl e)
    with rb show ?thesis
      by (simp add: exchange_certificate_def get_certificate_def Message_init_def type_tags
          send_and_get_reply_def to_communicator_def
          handle_CERTIFICATE [unfolded CERTIFICATE_def])
  next
    case (Inr ok)
    with rb cert show ?thesis
      by (cases ok)
        (simp_all add: exchange_certificate_def get_certificate_def Message_init_def type_tags
          send_and_get_reply_def to_communicator_def
          handle_CERTIFICATE [unfolded CERTIFICATE_def] as_certificate_def
          register_certificate_None split_beta)
  qed
qed

text \<open>
  C3, as the code has it. When \<open>B\<close> rejects the certificate of \<open>A\<close>, the exchange
  returns false and neither communicator changes. When \<open>B\<close> accepts it (it verifies
  and its key imports as \<open>kA\<close>), the caches of \<open>B\<close> hold the certificate and key
  of \<open>A\<close> under the identifier of \<open>A\<close> from then on, and what \<open>A\<close> does with
  the certificate of \<open>B\<close> decides the rest: if it verifies and its key imports as
  \<open>kB\<close>, the exchange returns true and the caches of \<open>A\<close> hold the certificate
  and key of \<open>B\<close> under the identifier of \<open>B\<close>; if \<open>A\<close> rejects it, the
  exchange returns false and \<open>A\<close> is unchanged; if the verification at \<open>A\<close>
  raises, the exchange raises and \<open>A\<close> is unchanged; if the import at \<open>A\<close>
  raises, the exchange raises and \<open>A\<close> holds the certificate of \<open>B\<close> without
  its key. When the verification at \<open>B\<close> raises, \<open>B\<close> is unchanged and sends no
  reply, and the exchange raises at \<open>A\<close>; when the import at \<open>B\<close> raises, the
  same, except that \<open>B\<close> holds the certificate of \<open>A\<close> without its key.
\<close>

theorem exchange_outcomes:
  "(Certificate_verify L (certificate A) (cr_key B) = Inr False \<longrightarrow>
      exchange_certificate L (to_communicator L) A B addr = (Inr False, A, B)) \<and>
   (\<forall>kA. Certificate_verify L (certificate A) (cr_key B) = Inr True \<and>
        import_key L (cert_public_key (certificate A)) = Some kA \<longrightarrow>
      (\<forall>kB. Certificate_verify L (certificate B) (cr_key A) = Inr True \<and>
           import_key L (cert_public_key (certificate B)) = Some kB \<longrightarrow>
         exchange_certificate L (to_communicator L) A B addr =
           (Inr True,
            cache_key (cache_certificate A (certificate B)) (certificate B) kB,
            cache_key (cache_certificate B (certificate A)) (certificate A) kA)) \<and>
      (Certificate_verify L (certificate B) (cr_key A) = Inr False \<longrightarrow>
         exchange_certificate L (to_communicator L) A B addr =
           (Inr False, A,
            cache_key (cache_certificate B (certificate A)) (certificate A) kA)) \<and>
      (\<forall>e. Certificate_verify L (certificate B) (cr_key A) = Inl e \<longrightarrow>
         exchange_certificate L (to_communicator L) A B addr =
           (Inl e, A,
            cache_key (cache_certificate B (certificate A)) (certificate A) kA)) \<and>
      (Certificate_verify L (certificate B) (cr_key A) = Inr True \<and>
         import_key L (cert_public_key (certificate B)) = None \<longrightarrow>
         exchange_certificate L (to_communicator L) A B addr =
           (Inl ValueError, cache_certificate A (certificate B),
            cache_key (cache_certificate B (certificate A)) (certificate A) kA))) \<and>
   (\<forall>e. Certificate_verify L (certificate A) (cr_key B) = Inl e \<longrightarrow>
      exchange_certificate L (to_communicator L) A B addr = (Inl EOFError, A, B)) \<and>
   (Certificate_verify L (certificate A) (cr_key B) = Inr True \<and>
      import_key L (cert_public_key (certificate A)) = None \<longrightarrow>
      exchange_certificate L (to_communicator L) A B addr =
        (Inl EOFError, A, cache_certificate B (certificate A)))"
  by (auto simp add: exchange_with_communicator register_certificate_Some)

theorem exchange_outcomes_witness:
  "exchange_certificate toy_lib (to_communicator toy_lib) alice bob (''10.0.0.2'', 5002) =
     (Inr True, cache_key (cache_certificate alice bob1) bob1 ''bob-pem'',
      cache_key (cache_certificate bob alice1) alice1 ''alice-pem'') \<and>
   exchange_certificate toy_lib (to_communicator toy_lib) bob alice_stale (''10.0.0.1'', 5001) =
     (Inr False, bob, alice_stale) \<and>
   exchange_certificate toy_lib (to_communicator toy_lib) alice_stale bob (''10.0.0.2'', 5002) =
     (Inr False, alice_stale, cache_key (cache_certificate bob alice1) alice1 ''alice-pem'') \<and>
   exchange_certificate toy_lib (to_communicator toy_lib) bob eve (''10.0.0.5'', 5005) =
     (Inl ValueError, cache_certificate bob eve1,
      cache_key (cache_certificate eve bob1) bob1 ''bob-pem'') \<and>
   exchange_certificate toy_lib (to_communicator toy_lib) eve bob (''10.0.0.2'', 5002) =
     (Inl EOFError, eve, cache_certificate bob eve1) \<and>
   exchange_certificate toy_lib (to_communicator toy_lib) alice_unsigned bob (''10.0.0.2'', 5002) =
     (Inl EOFError, alice_unsigned, bob) \<and>
   exchange_certificate toy_lib (to_communicator toy_lib) bob alice_unsigned (''10.0.0.1'', 5001) =
     (Inl TypeError, bob, cache_key (cache_certificate alice_unsigned bob1) bob1 ''bob-pem'')"
  using exchange_outcomes [of toy_lib alice bob "(''10.0.0.2'', 5002)"]
    exchange_outcomes [of toy_lib bob alice_stale "(''10.0.0.1'', 5001)"]
    exchange_outcomes [of toy_lib alice_stale bob "(''10.0.0.2'', 5002)"]
    exchange_outcomes [of toy_lib bob eve "(''10.0.0.5'', 5005)"]
    exchange_outcomes [of toy_lib eve bob "(''10.0.0.2'', 5002)"]
    exchange_outcomes [of toy_lib alice_unsigned bob "(''10.0.0.2'', 5002)"]
    exchange_outcomes [of toy_lib bob alice_unsigned "(''10.0.0.1'', 5001)"]
  by (simp add: toy_fields toy_fields_eve verify_toy)

text \<open>
  The claim as the specification words it, that neither cache is updated when either
  verification fails, is false: Alice holds an older registry key, so she rejects Bob's
  certificate and the exchange returns false; Bob, who had no entry under 1, has by
  then cached her certificate and key.
\<close>

theorem exchange_one_sided_counterexample:
  "Certificate_verify toy_lib (certificate bob) (cr_key alice_stale) = Inr False \<and>
   fst (exchange_certificate toy_lib (to_communicator toy_lib) alice_stale bob (''10.0.0.2'', 5002)) =
     Inr False \<and>
   com_certificates bob 1 = None \<and> com_keys bob 1 = None \<and>
   com_certificates (snd (snd (exchange_certificate toy_lib (to_communicator toy_lib)
       alice_stale bob (''10.0.0.2'', 5002)))) 1 = Some alice1 \<and>
   com_keys (snd (snd (exchange_certificate toy_lib (to_communicator toy_lib)
       alice_stale bob (''10.0.0.2'', 5002)))) 1 = Some ''alice-pem''"
  by (simp add: exchange_with_communicator register_certificate_Some toy_fields verify_toy)

subsection \<open>The hash of a file request\<close>

lemma is_ascii_append [simp]: "is_ascii (a @ b) \<longleftrightarrow> is_ascii a \<and> is_ascii b"
  by (simp add: is_ascii_def)

lemma is_ascii_digit: "k < 10 \<Longrightarrow> is_ascii [''0123456789'' ! k]"
proof -
  assume "k < 10"
  moreover have "list_all (\<lambda>c. \<not> digit7 c) ''0123456789''" by simp
  ultimately have "\<not> digit7 (''0123456789'' ! k)"
    by (simp add: list_all_length)
  then show ?thesis by (simp add: is_ascii_def)
qed

lemma is_ascii_str_nat: "is_ascii (str_nat n)"
proof (induction n rule: str_nat.induct)
  case (1 n)
  show ?case
  proof (cases "n < 10")
    case True
    then show ?thesis
      using is_ascii_digit [of n] by (subst str_nat.simps) simp
  next
    case False
    then show ?thesis
      using 1 is_ascii_digit [of "n mod 10"] by (subst str_nat.simps) simp
  qed
qed

lemma is_ascii_fmt_d: "is_ascii (fmt_d i)"
  using is_ascii_str_nat [of "nat (- i)"] is_ascii_str_nat [of "nat i"]
  by (simp add: fmt_d_def is_ascii_def)

lemma is_ascii_fmt_4d: "is_ascii (fmt_4d a b c d)"
  using is_ascii_fmt_d [of a] is_ascii_fmt_d [of b] is_ascii_fmt_d [of c] is_ascii_fmt_d [of d]
  by (simp add: fmt_4d_def) (simp add: is_ascii_def)

lemma update_lines_eq:
  "update_lines sha ls =
     (if list_all is_ascii ls then Inr (sha @ concat ls) else Inl UnicodeEncodeError)"
  by (induction ls arbitrary: sha) (simp_all add: sha256_update_def encode_ascii_def)

lemma FileRequest_hash_eq:
  "content r = BufferC b \<Longrightarrow>
   FileRequest_hash L r =
     (if is_ascii (username r) \<and> is_ascii (msg_type r) \<and> list_all is_ascii (lines b)
      then Inr (sha256 L (username r @ msg_type r @ concat (lines b) @
             fmt_4d (fd_com_id (descriptor b)) (src_com_id r)
               (fd_com_id (descriptor b)) (fd_file_id (descriptor b))))
      else Inl UnicodeEncodeError)"
  by (simp add: FileRequest_hash_def Let_def update_lines_eq sha256_new_def sha256_update_def
      sha256_digest_def encode_ascii_def is_ascii_fmt_4d)

lemma fmt_4d_toy: "fmt_4d 1 2 1 1 = ''1 2 1 1''" "fmt_4d 1 2 1 2 = ''1 2 1 2''"
  "fmt_4d 1 2 1 7 = ''1 2 1 7''"
  by (simp_all add: fmt_4d_def fmt_d_def str_nat.simps)

lemma FileRequest_init_eq:
  "FileRequest_init buffer (cert_com_id (certificate self)) user =
     Inr (unsigned_request self buffer user)"
  by (simp add: FileRequest_init_def Message_init_def type_tags unsigned_request_def)

lemma toy_fields3:
  "communicators bob3 1 = Some alice_sp" "com_certificates bob3 1 = Some alice1"
  "com_keys bob3 1 = Some ''alice-pem''" "key bob3 = ''bob-pem''" "certificate bob3 = bob1"
  by (simp_all add: bob3_def bob2_def bob_def)

text \<open>
  C6. The hash of a file request (type \<^verbatim>\<open>FETCH_FILE\<close>, a file buffer as content).
  When the user name and every line of the buffer are ASCII, it is the digest of these
  bytes, in this order: the user name; the type tag; the lines of the buffer, one after
  the other (nothing for a buffer without lines); and four decimal numbers separated by
  single spaces, which are the identifier of the communicator that owns the file, the
  identifier of the requesting communicator, the owner's identifier a second time, and
  the file's identifier. When the user name or a line is not ASCII, \<^verbatim>\<open>hash\<close> raises
  \<^verbatim>\<open>UnicodeEncodeError\<close> and there is no digest.
\<close>

theorem file_request_hash_covers:
  "msg_type r = FETCH_FILE \<Longrightarrow> content r = BufferC b \<Longrightarrow>
   FileRequest_hash L r =
     (if is_ascii (username r) \<and> list_all is_ascii (lines b)
      then Inr (sha256 L (username r @ ''FETCH_FILE'' @ concat (lines b) @
             fmt_d (fd_com_id (descriptor b)) @ '' '' @
             fmt_d (src_com_id r) @ '' '' @
             fmt_d (fd_com_id (descriptor b)) @ '' '' @
             fmt_d (fd_file_id (descriptor b))))
      else Inl UnicodeEncodeError)"
  by (simp add: FileRequest_hash_eq fmt_4d_def FETCH_FILE_def is_ascii_def)

theorem file_request_hash_covers_witness:
  "msg_type request7 = FETCH_FILE \<and>
   content request7 = BufferC \<lparr>buffer_id = 3, descriptor = notes_txt\<lparr>fd_file_id := 7\<rparr>,
         lines = [''first line'', ''second line'']\<rparr> \<and>
   FileRequest_hash toy_lib request7 = Inr ''carolFETCH_FILEfirst linesecond line1 2 1 7'' \<and>
   FileRequest_hash toy_lib (request7\<lparr>username := [CHR ''Z'', CHR ''o'', CHR 0xE9]\<rparr>) =
     Inl UnicodeEncodeError"
  using file_request_hash_covers [of request7
      "\<lparr>buffer_id = 3, descriptor = notes_txt\<lparr>fd_file_id := 7\<rparr>,
        lines = [''first line'', ''second line'']\<rparr>" toy_lib]
    file_request_hash_covers [of "request7\<lparr>username := [CHR ''Z'', CHR ''o'', CHR 0xE9]\<rparr>"
      "\<lparr>buffer_id = 3, descriptor = notes_txt\<lparr>fd_file_id := 7\<rparr>,
        lines = [''first line'', ''second line'']\<rparr>" toy_lib]
  by (simp add: request7_def toy_lib_def notes_txt_def fmt_d_def str_nat.simps FETCH_FILE_def
      is_ascii_def)

text \<open>
  The claim as the specification words it, that every file request has such a digest,
  is false: the request that the constructor builds for a user whose name has a
  character outside ASCII has none, \<^verbatim>\<open>hash\<close> raises.
\<close>

theorem file_request_hash_raises_counterexample:
  "FileRequest_init buffer0 2 [CHR ''Z'', CHR ''o'', CHR 0xE9] =
     Inr (unsigned_request bob3 buffer0 [CHR ''Z'', CHR ''o'', CHR 0xE9]) \<and>
   FileRequest_hash toy_lib (unsigned_request bob3 buffer0 [CHR ''Z'', CHR ''o'', CHR 0xE9]) =
     Inl UnicodeEncodeError"
  using FileRequest_init_eq [of buffer0 bob3 "[CHR ''Z'', CHR ''o'', CHR 0xE9]"]
  by (simp add: toy_fields3 toy_fields FileRequest_hash_eq [of _ buffer0] unsigned_request_def
      is_ascii_def)

subsection \<open>What \<^verbatim>\<open>fetch_file\<close> sends\<close>


lemma exchange_certificate_identity:
  "exchange_certificate L net self w addr = (r, self', w') \<Longrightarrow>
   certificate self' = certificate self \<and> key self' = key self"
  using register_certificate_identity [of L self]
  by (auto simp add: exchange_certificate_def split_beta split: sum.splits prod.splits)






lemma sign_toy:
  "FileRequest_sign toy_lib (unsigned_request bob3 buffer0 ''carol'') (key bob3) = Inr request_ok"
  "FileRequest_sign toy_lib (unsigned_request bob2 buffer0 ''carol'') (key bob2) = Inr request_ok"
  "FileRequest_sign toy_lib (unsigned_request bob3 buffer0 [CHR ''Z'', CHR ''o'', CHR 0xE9])
     (key bob3) = Inl UnicodeEncodeError"
  by (simp_all add: FileRequest_sign_def FileRequest_hash_eq [of _ buffer0] unsigned_request_def
      request_ok_def toy_fields3 toy_fields toy_fields2 toy_lib_def buffer0_def notes_txt_def
      fmt_4d_toy FETCH_FILE_def is_ascii_def)



lemma bob3_hit:
  "communicators bob3 (fd_com_id (descriptor buffer0)) = Some alice_sp"
  "fd_com_id (descriptor buffer0) \<in> dom (com_certificates bob3)"
  by (simp_all add: toy_fields3 toy_fields2 domIff)




subsection \<open>Serving a file request\<close>

lemma FileRequest_hash_request [simp]:
  "FileRequest_hash L (r\<lparr>request := x\<rparr>) = FileRequest_hash L r"
  by (cases "content r") (simp_all add: FileRequest_hash_def Let_def split: sum.splits)

lemma FileRequest_verify_request [simp]:
  "FileRequest_verify L (r\<lparr>request := x\<rparr>) k = FileRequest_verify L r k"
  by (cases "FileRequest_hash L r") (simp_all add: FileRequest_verify_def)

lemma FileRequest_hash_content:
  "FileRequest_hash L r = Inr h \<Longrightarrow> \<exists>b. content r = BufferC b"
  by (cases "content r") (simp_all add: FileRequest_hash_def Let_def split: sum.splits)

lemma FileRequest_verify_content:
  "FileRequest_verify L r k = Inr v \<Longrightarrow> (\<exists>b. content r = BufferC b) \<and> is_ascii (username r)"
proof -
  assume v: "FileRequest_verify L r k = Inr v"
  then obtain h where h: "FileRequest_hash L r = Inr h"
    by (cases "FileRequest_hash L r") (simp_all add: FileRequest_verify_def)
  then obtain b where b: "content r = BufferC b"
    using FileRequest_hash_content by blast
  with h show ?thesis
    by (auto simp add: FileRequest_hash_eq [OF b] split: if_splits)
qed

text \<open>
  The \<^verbatim>\<open>FETCH_FILE\<close> branch of the handler, for an instance of \<^verbatim>\<open>FileRequest\<close>.
\<close>

lemma handle_FETCH_FILE:
  "msg_type r = FETCH_FILE \<Longrightarrow>
   CommunicatorHandler_handle L srv (FileRequestMsg r) =
     (case com_keys srv (src_com_id r) of
        None \<Rightarrow> (Inl KeyError, srv)
      | Some k \<Rightarrow>
          (case FileRequest_verify L r k of
             Inl e \<Rightarrow> (Inl e, srv)
           | Inr True \<Rightarrow>
               (case content r of
                  BufferC b \<Rightarrow>
                    (case loader srv b of
                       Inl e \<Rightarrow> (Inl e, srv)
                     | Inr b' \<Rightarrow>
                         (case FileRequest_sign L (r\<lparr>request := False, content := BufferC b'\<rparr>)
                                 (key srv) of
                            Inl e \<Rightarrow> (Inl e, srv)
                          | Inr r' \<Rightarrow> (Inr (FileRequestMsg r'), srv)))
                | _ \<Rightarrow> (Inl AttributeError, srv))
           | Inr False \<Rightarrow> (Inr (FileRequestMsg (r\<lparr>request := True\<rparr>)), srv)))"
  by (simp add: CommunicatorHandler_handle_def type_tags
      split: option.splits sum.splits bool.splits content.splits)

lemma toy_requests:
  "msg_type request_ok = FETCH_FILE" "msg_type request_forged = FETCH_FILE"
  "msg_type request_unsigned = FETCH_FILE" "msg_type request_menu = FETCH_FILE"
  "src_com_id request_ok = 2" "src_com_id request_forged = 2"
  "src_com_id request_unsigned = 2" "src_com_id request_menu = 2"
  "com_keys alice2 2 = Some ''bob-pem''" "com_keys alice 2 = None"
  "content request_ok = BufferC buffer0" "content request_menu = BufferC buffer1"
  "key alice2 = ''alice-pem''"
  by (simp_all add: request_ok_def request_forged_def request_unsigned_def request_menu_def
      unsigned_request_def alice2_def alice_def bob3_def bob2_def bob_def bob1_def)

lemma toy_verify:
  "FileRequest_verify toy_lib request_ok ''bob-pem'' = Inr True"
  "FileRequest_verify toy_lib request_forged ''bob-pem'' = Inr False"
  "FileRequest_verify toy_lib request_unsigned ''bob-pem'' = Inl TypeError"
  "FileRequest_verify toy_lib request_menu ''bob-pem'' = Inr True"
  by (simp_all add: request_ok_def request_forged_def request_unsigned_def request_menu_def
      unsigned_request_def FileRequest_verify_def FileRequest_hash_eq [of _ buffer0]
      FileRequest_hash_eq [of _ buffer1] toy_lib_def buffer0_def buffer1_def
      notes_txt_def menu_txt_def bob3_def bob2_def bob_def bob1_def fmt_4d_toy FETCH_FILE_def
      is_ascii_def)

lemma toy_loader:
  "loader alice2 buffer0 = Inr (buffer0\<lparr>lines := [''first line'', ''second line'']\<rparr>)"
  "loader alice2 buffer1 =
     Inr (buffer1\<lparr>lines := [''today'', [CHR ''c'', CHR ''a'', CHR ''f'', CHR 0xE9]]\<rparr>)"
  "loader alice2 (buffer0\<lparr>descriptor := notes_txt\<lparr>fd_name := ''gone.txt''\<rparr>\<rparr>) = Inl OSError"
  by (simp_all add: alice2_def alice_def disk_def buffer0_def buffer1_def notes_txt_def
      menu_txt_def)

lemma gone_facts:
  "msg_type request_gone = FETCH_FILE" "com_keys alice2 (src_com_id request_gone) = Some ''bob-pem''"
  "FileRequest_verify toy_lib request_gone ''bob-pem'' = Inr True"
  "content request_gone = BufferC (buffer0\<lparr>descriptor := notes_txt\<lparr>fd_name := ''gone.txt''\<rparr>\<rparr>)"
  by (simp_all add: request_gone_def toy_requests request_ok_def unsigned_request_def
      FileRequest_verify_def
      FileRequest_hash_eq [of _ "buffer0\<lparr>descriptor := notes_txt\<lparr>fd_name := ''gone.txt''\<rparr>\<rparr>"]
      toy_lib_def buffer0_def notes_txt_def bob3_def bob2_def bob_def bob1_def fmt_4d_toy
      FETCH_FILE_def is_ascii_def alice2_def alice_def)

lemma honest_reply:
  "CommunicatorHandler_handle toy_lib alice2 (FileRequestMsg request_ok) =
     (Inr (FileRequestMsg reply_ok), alice2)"
  by (simp add: handle_FETCH_FILE toy_requests toy_verify toy_loader FileRequest_sign_def
        FileRequest_hash_eq [of _ "buffer0\<lparr>lines := [''first line'', ''second line'']\<rparr>"]
        reply_ok_def)
    (simp add: toy_lib_def buffer0_def notes_txt_def fmt_4d_toy request_ok_def
        unsigned_request_def FETCH_FILE_def is_ascii_def)

text \<open>
  C7. A \<^verbatim>\<open>FETCH_FILE\<close> request arrives whose source identifier has the key \<open>k\<close> in
  the responder's cache. If \<^verbatim>\<open>verify\<close> returns true for \<open>k\<close>, the content of
  the request is a file buffer \<open>b\<close> and the loader is called on it. When the loader
  returns \<open>b'\<close> and all its lines are ASCII, the reply is the request with \<open>b'\<close>
  as content, \<open>request = False\<close>, and the signature of the responder's own key over
  the hash of the request with the loaded buffer; when a line of \<open>b'\<close> is not ASCII,
  signing raises \<^verbatim>\<open>UnicodeEncodeError\<close> and no reply is sent; when the loader
  raises, no reply is sent. If \<^verbatim>\<open>verify\<close> returns false, the reply is the request
  with \<open>request = True\<close> and nothing else changed: content and signature are the ones
  received, whatever the loader is. If \<^verbatim>\<open>verify\<close> raises (a request that carries no
  signature, or text that is not ASCII), no reply is sent. The responder's state is the
  same in all cases.
\<close>

theorem fetch_file_request_served:
  assumes "msg_type r = FETCH_FILE" and "com_keys srv (src_com_id r) = Some k"
  shows "(FileRequest_verify L r k = Inr True \<longrightarrow>
            (\<exists>b. content r = BufferC b \<and>
               (\<forall>b'. loader srv b = Inr b' \<longrightarrow>
                  CommunicatorHandler_handle L srv (FileRequestMsg r) =
                    (if list_all is_ascii (lines b') then
                       (Inr (FileRequestMsg (r\<lparr>request := False, content := BufferC b',
                          signature := Some (rsa_sign L (key srv)
                            (sha256 L (username r @ ''FETCH_FILE'' @ concat (lines b') @
                               fmt_4d (fd_com_id (descriptor b')) (src_com_id r)
                                 (fd_com_id (descriptor b')) (fd_file_id (descriptor b')))))\<rparr>)),
                        srv)
                     else (Inl UnicodeEncodeError, srv))) \<and>
               (\<forall>e. loader srv b = Inl e \<longrightarrow>
                  CommunicatorHandler_handle L srv (FileRequestMsg r) = (Inl e, srv)))) \<and>
         (FileRequest_verify L r k = Inr False \<longrightarrow>
            CommunicatorHandler_handle L srv (FileRequestMsg r) =
              (Inr (FileRequestMsg (r\<lparr>request := True\<rparr>)), srv)) \<and>
         (\<forall>e. FileRequest_verify L r k = Inl e \<longrightarrow>
            CommunicatorHandler_handle L srv (FileRequestMsg r) = (Inl e, srv))"
proof (intro conjI impI allI)
  assume v: "FileRequest_verify L r k = Inr True"
  then obtain b where b: "content r = BufferC b" and u: "is_ascii (username r)"
    using FileRequest_verify_content [of L r k True] by blast
  have loaded: "CommunicatorHandler_handle L srv (FileRequestMsg r) =
          (if list_all is_ascii (lines b') then
             (Inr (FileRequestMsg (r\<lparr>request := False, content := BufferC b',
                signature := Some (rsa_sign L (key srv)
                  (sha256 L (username r @ ''FETCH_FILE'' @ concat (lines b') @
                     fmt_4d (fd_com_id (descriptor b')) (src_com_id r)
                       (fd_com_id (descriptor b')) (fd_file_id (descriptor b')))))\<rparr>)), srv)
           else (Inl UnicodeEncodeError, srv))"
    if "loader srv b = Inr b'" for b'
    using assms v b u that
    by (simp add: handle_FETCH_FILE FileRequest_sign_def
        FileRequest_hash_eq [of "r\<lparr>request := False, content := BufferC b'\<rparr>" b']
        FETCH_FILE_def is_ascii_def)
  have failed: "CommunicatorHandler_handle L srv (FileRequestMsg r) = (Inl e, srv)"
    if "loader srv b = Inl e" for e
    using assms v b that by (simp add: handle_FETCH_FILE)
  from b loaded failed
  show "\<exists>b. content r = BufferC b \<and>
               (\<forall>b'. loader srv b = Inr b' \<longrightarrow>
                  CommunicatorHandler_handle L srv (FileRequestMsg r) =
                    (if list_all is_ascii (lines b') then
                       (Inr (FileRequestMsg (r\<lparr>request := False, content := BufferC b',
                          signature := Some (rsa_sign L (key srv)
                            (sha256 L (username r @ ''FETCH_FILE'' @ concat (lines b') @
                               fmt_4d (fd_com_id (descriptor b')) (src_com_id r)
                                 (fd_com_id (descriptor b')) (fd_file_id (descriptor b')))))\<rparr>)),
                        srv)
                     else (Inl UnicodeEncodeError, srv))) \<and>
               (\<forall>e. loader srv b = Inl e \<longrightarrow>
                  CommunicatorHandler_handle L srv (FileRequestMsg r) = (Inl e, srv))"
    by blast
next
  assume "FileRequest_verify L r k = Inr False"
  with assms show "CommunicatorHandler_handle L srv (FileRequestMsg r) =
              (Inr (FileRequestMsg (r\<lparr>request := True\<rparr>)), srv)"
    by (simp add: handle_FETCH_FILE)
next
  fix e
  assume "FileRequest_verify L r k = Inl e"
  with assms show "CommunicatorHandler_handle L srv (FileRequestMsg r) = (Inl e, srv)"
    by (simp add: handle_FETCH_FILE)
qed

theorem fetch_file_request_served_witness:
  "msg_type request_ok = FETCH_FILE \<and> com_keys alice2 (src_com_id request_ok) = Some ''bob-pem'' \<and>
   FileRequest_verify toy_lib request_ok ''bob-pem'' = Inr True \<and>
   CommunicatorHandler_handle toy_lib alice2 (FileRequestMsg request_ok) =
     (Inr (FileRequestMsg reply_ok), alice2) \<and>
   FileRequest_verify toy_lib request_menu ''bob-pem'' = Inr True \<and>
   CommunicatorHandler_handle toy_lib alice2 (FileRequestMsg request_menu) =
     (Inl UnicodeEncodeError, alice2) \<and>
   FileRequest_verify toy_lib request_gone ''bob-pem'' = Inr True \<and>
   CommunicatorHandler_handle toy_lib alice2 (FileRequestMsg request_gone) =
     (Inl OSError, alice2) \<and>
   FileRequest_verify toy_lib request_forged ''bob-pem'' = Inr False \<and>
   CommunicatorHandler_handle toy_lib alice2 (FileRequestMsg request_forged) =
     (Inr (FileRequestMsg (request_forged\<lparr>request := True\<rparr>)), alice2) \<and>
   FileRequest_verify toy_lib request_unsigned ''bob-pem'' = Inl TypeError \<and>
   CommunicatorHandler_handle toy_lib alice2 (FileRequestMsg request_unsigned) =
     (Inl TypeError, alice2)"
proof -
  have k: "com_keys alice2 (src_com_id request_ok) = Some ''bob-pem''"
    "com_keys alice2 (src_com_id request_forged) = Some ''bob-pem''"
    "com_keys alice2 (src_com_id request_unsigned) = Some ''bob-pem''"
    "com_keys alice2 (src_com_id request_menu) = Some ''bob-pem''"
    by (simp_all add: toy_requests)
  have "CommunicatorHandler_handle toy_lib alice2 (FileRequestMsg request_ok) =
     (Inr (FileRequestMsg reply_ok), alice2)"
    using fetch_file_request_served [OF toy_requests(1) k(1), of toy_lib]
    by (simp add: toy_requests toy_verify toy_loader reply_ok_def)
      (simp add: toy_lib_def buffer0_def notes_txt_def fmt_4d_toy request_ok_def
        unsigned_request_def is_ascii_def)
  moreover have "CommunicatorHandler_handle toy_lib alice2 (FileRequestMsg request_menu) =
     (Inl UnicodeEncodeError, alice2)"
    using fetch_file_request_served [OF toy_requests(4) k(4), of toy_lib]
    by (simp add: toy_requests toy_verify toy_loader is_ascii_def)
  moreover have "CommunicatorHandler_handle toy_lib alice2 (FileRequestMsg request_gone) =
     (Inl OSError, alice2)"
    using fetch_file_request_served [OF gone_facts(1) gone_facts(2), of toy_lib]
    by (simp add: gone_facts toy_loader)
  moreover have "CommunicatorHandler_handle toy_lib alice2 (FileRequestMsg request_forged) =
     (Inr (FileRequestMsg (request_forged\<lparr>request := True\<rparr>)), alice2)"
    using fetch_file_request_served [OF toy_requests(2) k(2), of toy_lib]
    by (simp add: toy_verify)
  moreover have "CommunicatorHandler_handle toy_lib alice2 (FileRequestMsg request_unsigned) =
     (Inl TypeError, alice2)"
    using fetch_file_request_served [OF toy_requests(3) k(3), of toy_lib]
    by (simp add: toy_verify)
  ultimately show ?thesis
    using k by (simp add: toy_requests toy_verify gone_facts)
qed

text \<open>
  The claim as the specification words it is false. A request from a cached source
  that carries no signature is not refused with \<open>request = True\<close>: \<^verbatim>\<open>verify\<close>
  raises \<^verbatim>\<open>TypeError\<close> and no reply is sent. And a request that verifies, for a file
  with a line that is not ASCII, is not answered with \<open>request = False\<close>: the loader
  is called, signing raises \<^verbatim>\<open>UnicodeEncodeError\<close> and no reply is sent.
\<close>

theorem unsigned_request_counterexample:
  "msg_type request_unsigned = FETCH_FILE \<and>
   com_keys alice2 (src_com_id request_unsigned) = Some ''bob-pem'' \<and>
   signature request_unsigned = None \<and>
   CommunicatorHandler_handle toy_lib alice2 (FileRequestMsg request_unsigned) =
     (Inl TypeError, alice2) \<and>
   msg_type request_menu = FETCH_FILE \<and>
   com_keys alice2 (src_com_id request_menu) = Some ''bob-pem'' \<and>
   FileRequest_verify toy_lib request_menu ''bob-pem'' = Inr True \<and>
   CommunicatorHandler_handle toy_lib alice2 (FileRequestMsg request_menu) =
     (Inl UnicodeEncodeError, alice2)"
  by (simp add: handle_FETCH_FILE toy_requests toy_verify toy_loader FileRequest_sign_def
        FileRequest_hash_eq [of _ "buffer1\<lparr>lines := [''today'', [CHR ''c'', CHR ''a'', CHR ''f'', CHR 0xE9]]\<rparr>"]
        is_ascii_def)
    (simp add: request_unsigned_def unsigned_request_def)

text \<open>
  C10. A \<^verbatim>\<open>FETCH_FILE\<close> request arrives whose source identifier is not a key of
  \<open>com_keys\<close>: indexing the dictionary raises \<^verbatim>\<open>KeyError\<close>, so the handler sends
  no reply of either kind, and the responder is as it was. Conversely, whenever the
  handler does reply to a \<^verbatim>\<open>FETCH_FILE\<close> request, the source identifier was a key of
  \<open>com_keys\<close>, where only \<^verbatim>\<open>register_certificate\<close> writes.
\<close>

theorem unknown_requester_no_reply:
  "msg_type r = FETCH_FILE \<Longrightarrow>
   (com_keys srv (src_com_id r) = None \<longrightarrow>
      CommunicatorHandler_handle L srv (FileRequestMsg r) = (Inl KeyError, srv)) \<and>
   (\<forall>reply srv'. CommunicatorHandler_handle L srv (FileRequestMsg r) = (Inr reply, srv') \<longrightarrow>
      src_com_id r \<in> dom (com_keys srv))"
  by (auto simp add: handle_FETCH_FILE split: option.splits)

theorem unknown_requester_no_reply_witness:
  "msg_type request_ok = FETCH_FILE \<and> com_keys alice (src_com_id request_ok) = None \<and>
   CommunicatorHandler_handle toy_lib alice (FileRequestMsg request_ok) = (Inl KeyError, alice) \<and>
   CommunicatorHandler_handle toy_lib alice2 (FileRequestMsg request_ok) =
     (Inr (FileRequestMsg reply_ok), alice2) \<and>
   src_com_id request_ok \<in> dom (com_keys alice2)"
  using unknown_requester_no_reply [OF toy_requests(1), of alice toy_lib]
    unknown_requester_no_reply [OF toy_requests(1), of alice2 toy_lib] honest_reply
  by (simp add: toy_requests)

subsection \<open>What \<^verbatim>\<open>fetch_file\<close> returns\<close>

lemma request_file_reply:
  assumes "FileRequest_sign L (unsigned_request self buffer user) (key self) = Inr req"
    and "net w addr (FileRequestMsg req) = (Inr (FileRequestMsg reply), w')"
  shows "fst (request_file L net self w addr com_id buffer user) =
     (if request reply then Inr (content reply)
      else case com_keys self com_id of
             None \<Rightarrow> Inl KeyError
           | Some k \<Rightarrow>
               (case FileRequest_verify L reply k of
                  Inl e \<Rightarrow> Inl e
                | Inr verified \<Rightarrow> Inr (content reply)))"
  using assms
  by (simp add: request_file_def FileRequest_init_eq split: option.splits sum.splits)

text \<open>
  The file request goes out from the communicator \<open>self'\<close>: \<open>self\<close> itself when
  the owner was in the certificate cache, \<open>self\<close> after a successful exchange
  otherwise.
\<close>

lemma fetch_file_after_send:
  assumes sp: "communicators self (fd_com_id (descriptor buffer)) = Some sp"
    and sent: "fd_com_id (descriptor buffer) \<in> dom (com_certificates self) \<and> self' = self \<and> wa = w \<or>
       fd_com_id (descriptor buffer) \<notin> dom (com_certificates self) \<and>
       exchange_certificate L net self w (sp_address sp) = (Inr True, self', wa)"
    and req: "FileRequest_sign L (unsigned_request self buffer user) (key self) = Inr req"
    and reply: "net wa (sp_address sp) (FileRequestMsg req) = (Inr (FileRequestMsg reply), wb)"
  shows "fst (fetch_file L net self w buffer user) =
     (if request reply then Inr (content reply)
      else case com_keys self' (fd_com_id (descriptor buffer)) of
             None \<Rightarrow> Inl KeyError
           | Some k \<Rightarrow>
               (case FileRequest_verify L reply k of
                  Inl e \<Rightarrow> Inl e
                | Inr verified \<Rightarrow> Inr (content reply)))"
proof -
  from sent show ?thesis
  proof
    assume hit: "fd_com_id (descriptor buffer) \<in> dom (com_certificates self) \<and> self' = self \<and> wa = w"
    then show ?thesis
      using sp request_file_reply [OF req, of net w "sp_address sp" reply wb] reply
      by (simp add: fetch_file_def Let_def split_beta)
  next
    assume miss: "fd_com_id (descriptor buffer) \<notin> dom (com_certificates self) \<and>
       exchange_certificate L net self w (sp_address sp) = (Inr True, self', wa)"
    then have same: "certificate self' = certificate self" "key self' = key self"
      using exchange_certificate_identity [of L net self w "sp_address sp" "Inr True" self' wa]
      by simp_all
    have req1: "FileRequest_sign L (unsigned_request self' buffer user) (key self') = Inr req"
      using req same by (simp add: unsigned_request_def)
    show ?thesis
      using sp miss request_file_reply [OF req1, of net wa "sp_address sp" reply wb] reply
      by (simp add: fetch_file_def Let_def split_beta)
  qed
qed

lemma pushy_reply:
  "pushy_peer () (sp_address alice_sp) (FileRequestMsg request_ok) =
     (Inr (FileRequestMsg (request_ok\<lparr>request := True,
        content := BufferC (buffer0\<lparr>lines := [''unverified text'']\<rparr>)\<rparr>)), ())"
  by (simp add: pushy_peer_def)

lemma scripted_reply:
  "scripted_peer reply () addr (FileRequestMsg r) = (Inr (FileRequestMsg reply), ())"
  by (simp add: scripted_peer_def)

lemma to_communicator_honest:
  "to_communicator toy_lib alice2 addr (FileRequestMsg request_ok) =
     (Inr (FileRequestMsg reply_ok), alice2)"
  by (simp add: to_communicator_def honest_reply)

lemma cafe_not_ascii: "\<not> is_ascii cafe"
  by (simp add: cafe_def is_ascii_def)

lemma toy_replies:
  "\<not> request reply_ok"
  "content reply_ok = BufferC (buffer0\<lparr>lines := [''first line'', ''second line'']\<rparr>)"
  "FileRequest_verify toy_lib reply_ok ''alice-pem'' = Inr True"
  "FileRequest_verify toy_lib (reply_ok\<lparr>signature := None\<rparr>) ''alice-pem'' = Inl TypeError"
  "FileRequest_verify toy_lib (reply_ok\<lparr>signature := Some (''mallory-pem'', ''x'')\<rparr>) ''alice-pem''
     = Inr False"
  "FileRequest_verify toy_lib
     (reply_ok\<lparr>content := BufferC (buffer0\<lparr>lines := [cafe]\<rparr>)\<rparr>)
     ''alice-pem'' = Inl UnicodeEncodeError"
  by (simp_all add: reply_ok_def request_ok_def unsigned_request_def FileRequest_verify_def
      FileRequest_hash_eq [of _ "buffer0\<lparr>lines := [''first line'', ''second line'']\<rparr>"]
      FileRequest_hash_eq [of _ "buffer0\<lparr>lines := [cafe]\<rparr>"]
      toy_lib_def buffer0_def notes_txt_def bob3_def bob2_def bob_def bob1_def fmt_4d_toy
      FETCH_FILE_def is_ascii_def
      cafe_not_ascii [unfolded is_ascii_def])

lemma exchange_toy_full:
  "exchange_certificate toy_lib (to_communicator toy_lib) bob2 alice addr = (Inr True, bob3, alice2)"
  by (simp add: exchange_with_communicator register_certificate_Some toy_fields toy_fields2
      verify_toy cache_key_def cache_certificate_def bob3_def alice2_def)

text \<open>
  C8, as the code has it. \<^verbatim>\<open>fetch_file\<close> has sent its signed request and the peer
  has answered with an instance of \<^verbatim>\<open>FileRequest\<close>. If the reply has
  \<open>request = True\<close>, the refusal is only logged: the content of the reply is returned
  as it was received, and no signature is checked. If it has \<open>request = False\<close>, the
  reply is verified against the key cached for the owner of the file. When \<^verbatim>\<open>verify\<close>
  returns, true or false, the content of the reply is returned. When the key is not in
  the cache, or \<^verbatim>\<open>verify\<close> raises (a reply that carries no signature, or text that
  is not ASCII), the call raises and no content is returned.
\<close>

theorem fetch_file_reply_returned:
  assumes "communicators self (fd_com_id (descriptor buffer)) = Some sp"
    and "fd_com_id (descriptor buffer) \<in> dom (com_certificates self) \<and> self' = self \<and> wa = w \<or>
       fd_com_id (descriptor buffer) \<notin> dom (com_certificates self) \<and>
       exchange_certificate L net self w (sp_address sp) = (Inr True, self', wa)"
    and "FileRequest_sign L (unsigned_request self buffer user) (key self) = Inr req"
    and "net wa (sp_address sp) (FileRequestMsg req) = (Inr (FileRequestMsg reply), wb)"
  shows "fst (fetch_file L net self w buffer user) =
     (if request reply then Inr (content reply)
      else case com_keys self' (fd_com_id (descriptor buffer)) of
             None \<Rightarrow> Inl KeyError
           | Some k \<Rightarrow>
               (case FileRequest_verify L reply k of
                  Inl e \<Rightarrow> Inl e
                | Inr verified \<Rightarrow> Inr (content reply)))"
  using assms by (rule fetch_file_after_send)

theorem fetch_file_reply_returned_witness:
  "communicators bob3 (fd_com_id (descriptor buffer0)) = Some alice_sp \<and>
   fd_com_id (descriptor buffer0) \<in> dom (com_certificates bob3) \<and>
   FileRequest_sign toy_lib (unsigned_request bob3 buffer0 ''carol'') (key bob3) = Inr request_ok \<and>
   to_communicator toy_lib alice2 (sp_address alice_sp) (FileRequestMsg request_ok) =
     (Inr (FileRequestMsg reply_ok), alice2) \<and>
   \<not> request reply_ok \<and>
   fst (fetch_file toy_lib (to_communicator toy_lib) bob3 alice2 buffer0 ''carol'') =
     Inr (BufferC (buffer0\<lparr>lines := [''first line'', ''second line'']\<rparr>)) \<and>
   fd_com_id (descriptor buffer0) \<notin> dom (com_certificates bob2) \<and>
   exchange_certificate toy_lib (to_communicator toy_lib) bob2 alice (sp_address alice_sp) =
     (Inr True, bob3, alice2) \<and>
   fst (fetch_file toy_lib (to_communicator toy_lib) bob2 alice buffer0 ''carol'') =
     Inr (BufferC (buffer0\<lparr>lines := [''first line'', ''second line'']\<rparr>)) \<and>
   fst (fetch_file toy_lib (scripted_peer (reply_ok\<lparr>signature := Some (''mallory-pem'', ''x'')\<rparr>))
          bob3 () buffer0 ''carol'') =
     Inr (BufferC (buffer0\<lparr>lines := [''first line'', ''second line'']\<rparr>)) \<and>
   fst (fetch_file toy_lib (scripted_peer (reply_ok\<lparr>signature := None\<rparr>))
          bob3 () buffer0 ''carol'') = Inl TypeError \<and>
   fst (fetch_file toy_lib (scripted_peer (reply_ok\<lparr>content :=
            BufferC (buffer0\<lparr>lines := [cafe]\<rparr>)\<rparr>))
          bob3 () buffer0 ''carol'') = Inl UnicodeEncodeError"
proof -
  have hit: "fst (fetch_file toy_lib (to_communicator toy_lib) bob3 alice2 buffer0 ''carol'') =
     Inr (BufferC (buffer0\<lparr>lines := [''first line'', ''second line'']\<rparr>))"
    using fetch_file_reply_returned [where L = toy_lib and net = "to_communicator toy_lib"
        and self = bob3 and self' = bob3 and w = alice2 and wa = alice2 and wb = alice2
        and buffer = buffer0 and user = "''carol''" and sp = alice_sp and req = request_ok
        and reply = reply_ok]
      bob3_hit sign_toy(1) to_communicator_honest [of "sp_address alice_sp"]
    by (simp add: toy_fields3 toy_fields2 toy_replies)
  have miss: "fst (fetch_file toy_lib (to_communicator toy_lib) bob2 alice buffer0 ''carol'') =
     Inr (BufferC (buffer0\<lparr>lines := [''first line'', ''second line'']\<rparr>))"
    using fetch_file_reply_returned [where L = toy_lib and net = "to_communicator toy_lib"
        and self = bob2 and self' = bob3 and w = alice and wa = alice2 and wb = alice2
        and buffer = buffer0 and user = "''carol''" and sp = alice_sp and req = request_ok
        and reply = reply_ok]
      sign_toy(2) to_communicator_honest [of "sp_address alice_sp"]
      exchange_toy_full [of "sp_address alice_sp"]
    by (simp add: toy_fields3 toy_fields2 toy_replies domIff)
  have unverified:
    "fst (fetch_file toy_lib (scripted_peer (reply_ok\<lparr>signature := Some (''mallory-pem'', ''x'')\<rparr>))
          bob3 () buffer0 ''carol'') =
     Inr (BufferC (buffer0\<lparr>lines := [''first line'', ''second line'']\<rparr>))"
    using fetch_file_reply_returned [where L = toy_lib
        and net = "scripted_peer (reply_ok\<lparr>signature := Some (''mallory-pem'', ''x'')\<rparr>)"
        and self = bob3 and self' = bob3 and w = "()" and wa = "()" and wb = "()"
        and buffer = buffer0 and user = "''carol''" and sp = alice_sp and req = request_ok
        and reply = "reply_ok\<lparr>signature := Some (''mallory-pem'', ''x'')\<rparr>"]
      bob3_hit sign_toy(1)
    by (simp add: toy_fields3 toy_fields2 toy_replies scripted_reply)
  have unsigned:
    "fst (fetch_file toy_lib (scripted_peer (reply_ok\<lparr>signature := None\<rparr>))
          bob3 () buffer0 ''carol'') = Inl TypeError"
    using fetch_file_reply_returned [where L = toy_lib
        and net = "scripted_peer (reply_ok\<lparr>signature := None\<rparr>)"
        and self = bob3 and self' = bob3 and w = "()" and wa = "()" and wb = "()"
        and buffer = buffer0 and user = "''carol''" and sp = alice_sp and req = request_ok
        and reply = "reply_ok\<lparr>signature := None\<rparr>"]
      bob3_hit sign_toy(1)
    by (simp add: toy_fields3 toy_fields2 toy_replies scripted_reply)
  have not_ascii:
    "fst (fetch_file toy_lib (scripted_peer (reply_ok\<lparr>content :=
            BufferC (buffer0\<lparr>lines := [cafe]\<rparr>)\<rparr>))
          bob3 () buffer0 ''carol'') = Inl UnicodeEncodeError"
    using fetch_file_reply_returned [where L = toy_lib
        and net = "scripted_peer (reply_ok\<lparr>content :=
            BufferC (buffer0\<lparr>lines := [cafe]\<rparr>)\<rparr>)"
        and self = bob3 and self' = bob3 and w = "()" and wa = "()" and wb = "()"
        and buffer = buffer0 and user = "''carol''" and sp = alice_sp and req = request_ok
        and reply = "reply_ok\<lparr>content :=
            BufferC (buffer0\<lparr>lines := [cafe]\<rparr>)\<rparr>"]
      bob3_hit sign_toy(1)
    by (simp add: toy_fields3 toy_fields2 toy_replies scripted_reply)
  show ?thesis
    using hit miss unverified unsigned not_ascii bob3_hit sign_toy(1)
      to_communicator_honest [of "sp_address alice_sp"] exchange_toy_full [of "sp_address alice_sp"]
    by (simp add: toy_replies toy_fields2 domIff)
qed

text \<open>
  The claim as the specification words it, that a reply with \<open>request = True\<close>
  delivers no content, is false: Bob, who trusts Alice's identifier, asks a peer that
  refuses and returns a buffer with a line of its own; \<^verbatim>\<open>fetch_file\<close> hands that
  buffer to the caller.
\<close>

theorem refused_reply_counterexample:
  "pushy_peer () (sp_address alice_sp) (FileRequestMsg request_ok) =
     (Inr (FileRequestMsg (request_ok\<lparr>request := True,
        content := BufferC (buffer0\<lparr>lines := [''unverified text'']\<rparr>)\<rparr>)), ()) \<and>
   request (request_ok\<lparr>request := True,
        content := BufferC (buffer0\<lparr>lines := [''unverified text'']\<rparr>)\<rparr>) \<and>
   fst (fetch_file toy_lib pushy_peer bob3 () buffer0 ''carol'') =
     Inr (BufferC (buffer0\<lparr>lines := [''unverified text'']\<rparr>))"
  using fetch_file_after_send [where L = toy_lib and net = pushy_peer and self = bob3
      and self' = bob3 and w = "()" and wa = "()" and wb = "()" and buffer = buffer0
      and user = "''carol''" and sp = alice_sp and req = request_ok
      and reply = "request_ok\<lparr>request := True,
        content := BufferC (buffer0\<lparr>lines := [''unverified text'']\<rparr>)\<rparr>"]
    bob3_hit sign_toy(1) pushy_reply
  by simp

section \<open>Publishing files\<close>

text \<open>
  The descriptor at position \<open>n\<close> of a list of distinct descriptor objects gets the
  identifier \<open>file_id_counter + n\<close> and is in the directory under it when the call
  returns.
\<close>

lemma publish_nth:
  "n < length files \<Longrightarrow>
   fst (CentralRegistry_publish srv files) ! n =
     (files ! n)\<lparr>fd_file_id := file_id_counter srv + int n\<rparr> \<and>
   public_files (snd (CentralRegistry_publish srv files)) (file_id_counter srv + int n) =
     Some ((files ! n)\<lparr>fd_file_id := file_id_counter srv + int n\<rparr>)"
proof (induction files arbitrary: srv n)
  case Nil
  then show ?case by simp
next
  case (Cons f files)
  let ?srv = "srv\<lparr>file_id_counter := file_id_counter srv + 1,
      public_files := (public_files srv)(file_id_counter srv \<mapsto>
        f\<lparr>fd_file_id := file_id_counter srv\<rparr>)\<rparr>"
  show ?case
  proof (cases n)
    case 0
    then show ?thesis
      using publish_frame [of ?srv files]
      by (simp add: Let_def split_beta)
  next
    case (Suc j)
    with Cons.prems have "j < length files" by simp
    then show ?thesis
      using Cons.IH [of j ?srv] Suc
      by (simp add: Let_def split_beta add.assoc)
  qed
qed

text \<open>
  Every identifier of one call is below every identifier of the next.
\<close>

lemma publish_calls_disjoint:
  assumes "i < length files1" and "j < length files2"
  shows "fd_file_id (fst (CentralRegistry_publish srv files1) ! i) <
         fd_file_id (fst (CentralRegistry_publish (snd (CentralRegistry_publish srv files1))
           files2) ! j)"
  using publish_nth [OF assms(1), of srv]
    publish_nth [OF assms(2), of "snd (CentralRegistry_publish srv files1)"]
    publish_frame [of srv files1] assms
  by simp

text \<open>
  \<^verbatim>\<open>Communicator.publish\<close> on a connection that the registry's handler answers, for
  a list that is not empty: the communicator stamps its identifier on every descriptor,
  and what it gets back is that list as \<^verbatim>\<open>CentralRegistry.publish\<close> numbered it.
\<close>

lemma publish_end_to_end:
  assumes "files \<noteq> []"
  shows "Communicator_publish (to_registry L) self srv files =
     (Inr (FilesC (fst (CentralRegistry_publish srv
        (map (\<lambda>f. f\<lparr>fd_com_id := cert_com_id (certificate self)\<rparr>) files)))),
      snd (CentralRegistry_publish srv
        (map (\<lambda>f. f\<lparr>fd_com_id := cert_com_id (certificate self)\<rparr>) files)))"
  using assms
  by (simp add: Communicator_publish_def Message_init_def type_tags send_and_get_reply_def
      to_registry_def RequestHandler_handle_def Let_def split_beta)

text \<open>
  C5. A communicator that publishes the empty list gets no list back: the registry's
  handler raises on its log line and closes the connection without a reply, so
  \<^verbatim>\<open>pickle.loads\<close> raises \<^verbatim>\<open>EOFError\<close> in \<^verbatim>\<open>Communicator.publish\<close>. The registry
  is unchanged.
\<close>

theorem publish_nothing_no_reply:
  "Communicator_publish (to_registry L) self srv [] = (Inl EOFError, srv)"
  by (simp add: Communicator_publish_def Message_init_def type_tags send_and_get_reply_def
      to_registry_def RequestHandler_handle_def Let_def)

end
